theory Spec2Isabelle
  imports Complex_Main "HOL-Library.Word"
begin

section \<open>JavaScript strings\<close>

text \<open>
  A JavaScript string is a sequence of UTF-16 code units. Every character of the
  program's tables lies in the Basic Multilingual Plane, so each is one code unit,
  written here by its code (\<open>0x5DE5\<close> is U+5DE5). Pure ASCII literals are written
  with \<open>ascii\<close>.
\<close>

type_synonym jschar = "16 word"
type_synonym jsstring = "jschar list"

definition ascii :: "string \<Rightarrow> jsstring" where
  "ascii s = map (\<lambda>c. of_nat (of_char c)) s"

text \<open>\<open>s.startsWith(k)\<close> and \<open>s.includes(k)\<close> (here \<open>includesStr\<close>): \<open>k\<close> occurs at the start of, or
  somewhere in, \<open>s\<close>.\<close>

fun startsWith :: "jsstring \<Rightarrow> jsstring \<Rightarrow> bool" where
  "startsWith s [] = True"
| "startsWith [] (k # ks) = False"
| "startsWith (c # cs) (k # ks) = (c = k \<and> startsWith cs ks)"

fun includesStr :: "jsstring \<Rightarrow> jsstring \<Rightarrow> bool" where
  "includesStr [] k = (k = [])"
| "includesStr (c # cs) k = (startsWith (c # cs) k \<or> includesStr cs k)"

text \<open>\<open>xs.join(sep)\<close> on an array of strings.\<close>

fun join :: "jsstring \<Rightarrow> jsstring list \<Rightarrow> jsstring" where
  "join sep [] = []"
| "join sep [x] = x"
| "join sep (x # y # ys) = x @ sep @ join sep (y # ys)"

section \<open>Regular expressions\<close>

text \<open>
  The regular expressions of the program use three constructs only: literal
  characters, the greedy \<open>.*\<close> and a top-level alternation, with the flags \<open>g\<close> and
  \<open>i\<close>. A pattern is a list of alternatives, each a list of terms.
\<close>

datatype reTerm = Lit jsstring | DotStar

record RegExp =
  alternatives :: "reTerm list list"
  global :: bool
  ignoreCase :: bool

definition regex :: "reTerm list list \<Rightarrow> RegExp" where
  "regex alts = \<lparr>alternatives = alts, global = False, ignoreCase = False\<rparr>"

definition regex_g :: "reTerm list list \<Rightarrow> RegExp" where
  "regex_g alts = \<lparr>alternatives = alts, global = True, ignoreCase = False\<rparr>"

definition regex_gi :: "reTerm list list \<Rightarrow> RegExp" where
  "regex_gi alts = \<lparr>alternatives = alts, global = True, ignoreCase = True\<rparr>"

text \<open>\<open>.\<close> matches every code unit but the four line terminators.\<close>

definition isLineTerminator :: "jschar \<Rightarrow> bool" where
  "isLineTerminator c = (c = 0x000A \<or> c = 0x000D \<or> c = 0x2028 \<or> c = 0x2029)"

text \<open>
  Under the \<open>i\<close> flag two code units match when their canonical forms agree. The
  only pattern with the flag holds lower-case ASCII letters and CJK ideographs; for a
  comparison against one of those, the canonical form of ECMAScript (upper-casing, never
  from outside ASCII into ASCII) agrees with upper-casing the ASCII letters alone.
\<close>

definition canonicalize :: "bool \<Rightarrow> jschar \<Rightarrow> jschar" where
  "canonicalize ic c = (if ic \<and> 0x61 \<le> c \<and> c \<le> 0x7A then c - 0x20 else c)"

fun matchLit :: "bool \<Rightarrow> jsstring \<Rightarrow> jsstring \<Rightarrow> bool" where
  "matchLit ic s [] = True"
| "matchLit ic [] (k # ks) = False"
| "matchLit ic (c # cs) (k # ks) =
     (canonicalize ic c = canonicalize ic k \<and> matchLit ic cs ks)"

text \<open>
  The backtracking matcher: \<open>matchTerms ic ts s\<close> is the length of the match of the
  terms \<open>ts\<close> at the start of \<open>s\<close>, the first one in the matcher's order of preference
  (\<open>.*\<close> takes as many code units as it can and gives them back one at a time).
\<close>

fun matchTerms :: "bool \<Rightarrow> reTerm list \<Rightarrow> jsstring \<Rightarrow> nat option" where
  "matchTerms ic [] s = Some 0"
| "matchTerms ic (Lit l # ts) s =
     (if matchLit ic s l
      then map_option (\<lambda>n. length l + n) (matchTerms ic ts (drop (length l) s))
      else None)"
| "matchTerms ic (DotStar # ts) [] = matchTerms ic ts []"
| "matchTerms ic (DotStar # ts) (c # cs) =
     (if isLineTerminator c then matchTerms ic ts (c # cs)
      else (case matchTerms ic (DotStar # ts) cs of
              Some n \<Rightarrow> Some (Suc n)
            | None \<Rightarrow> matchTerms ic ts (c # cs)))"

text \<open>The alternatives are tried from left to right.\<close>

fun matchAlts :: "bool \<Rightarrow> reTerm list list \<Rightarrow> jsstring \<Rightarrow> nat option" where
  "matchAlts ic [] s = None"
| "matchAlts ic (a # as) s =
     (case matchTerms ic a s of Some n \<Rightarrow> Some n | None \<Rightarrow> matchAlts ic as s)"

text \<open>\<open>search\<close> tries every start position from left to right: the offset of the
  first match and its length.\<close>

fun search :: "bool \<Rightarrow> reTerm list list \<Rightarrow> jsstring \<Rightarrow> (nat \<times> nat) option" where
  "search ic alts [] = map_option (Pair 0) (matchAlts ic alts [])"
| "search ic alts (c # cs) =
     (case matchAlts ic alts (c # cs) of
        Some n \<Rightarrow> Some (0, n)
      | None \<Rightarrow> map_option (\<lambda>(i, n). (Suc i, n)) (search ic alts cs))"

text \<open>
  \<open>RegExpBuiltinExec\<close>: the match (its index and length) and the new value of the
  object's \<open>lastIndex\<close>. Only a global expression reads and writes \<open>lastIndex\<close>.
\<close>

definition RegExpBuiltinExec :: "RegExp \<Rightarrow> jsstring \<Rightarrow> nat \<Rightarrow> (nat \<times> nat) option \<times> nat" where
  "RegExpBuiltinExec rx s lastIndex =
     (let start = (if global rx then lastIndex else 0) in
      if length s < start then (None, if global rx then 0 else lastIndex)
      else (case search (ignoreCase rx) (alternatives rx) (drop start s) of
              None \<Rightarrow> (None, if global rx then 0 else lastIndex)
            | Some (i, n) \<Rightarrow>
                (Some (start + i, n), if global rx then start + i + n else lastIndex)))"

text \<open>\<open>rx.test(s)\<close> for an expression without the \<open>g\<close> flag: \<open>lastIndex\<close> is neither
  read nor written, so the call is a function of the string.\<close>

definition regexTest :: "RegExp \<Rightarrow> jsstring \<Rightarrow> bool" where
  "regexTest rx s = (fst (RegExpBuiltinExec rx s 0) \<noteq> None)"

text \<open>
  \<open>s.match(rx)\<close> for a global expression sets \<open>lastIndex\<close> to 0 and then collects
  the matched substrings of successive \<open>RegExpBuiltinExec\<close> calls, stepping over an empty
  match, until one fails (which leaves \<open>lastIndex\<close> at 0). The loop below carries
  \<open>lastIndex\<close>.
\<close>

function globalMatchLoop :: "RegExp \<Rightarrow> jsstring \<Rightarrow> nat \<Rightarrow> jsstring list \<times> nat" where
  "globalMatchLoop rx s lastIndex =
     (if length s < lastIndex then ([], 0)
      else (case search (ignoreCase rx) (alternatives rx) (drop lastIndex s) of
              None \<Rightarrow> ([], 0)
            | Some (i, n) \<Rightarrow>
                (let e = lastIndex + i + n;
                     r = globalMatchLoop rx s (if n = 0 then Suc e else e)
                 in (take n (drop (lastIndex + i) s) # fst r, snd r))))"
  by pat_completeness auto
termination
  by (relation "measure (\<lambda>(rx, s, lastIndex). Suc (length s) - lastIndex)") auto

text \<open>The result of \<open>s.match(rx)\<close> (\<open>None\<close> is \<open>null\<close>) and the new \<open>lastIndex\<close>.\<close>

definition stringMatch :: "jsstring \<Rightarrow> RegExp \<Rightarrow> nat \<Rightarrow> jsstring list option \<times> nat" where
  "stringMatch s rx lastIndex =
     (if global rx
      then (let r = globalMatchLoop rx s 0
            in (if fst r = [] then None else Some (fst r), snd r))
      else (case RegExpBuiltinExec rx s lastIndex of
              (None, li) \<Rightarrow> (None, li)
            | (Some (i, n), li) \<Rightarrow> (Some [take n (drop i s)], li)))"

section \<open>The reframer (reframe.ts)\<close>

record ReframedProblem =
  original :: jsstring
  reframed :: jsstring
  emotionalElements :: "jsstring list"

definition EMOTIONAL_PATTERNS :: "(RegExp \<times> jsstring) list" where
  "EMOTIONAL_PATTERNS = [
    ((regex_g
     [[Lit [0x7126, 0x8651]],
      [Lit [0x62C5, 0x5FC3]],
      [Lit [0x5BB3, 0x6015]],
      [Lit [0x6050, 0x60E7]],
      [Lit [0x7D27, 0x5F20]]]), [0x7126, 0x8651, 0x60C5, 0x7EEA]),
    ((regex_g
     [[Lit [0x6124, 0x6012]],
      [Lit [0x751F, 0x6C14]],
      [Lit [0x6C14, 0x6124]],
      [Lit [0x4E0D, 0x723D]],
      [Lit [0x70E6]]]), [0x6124, 0x6012, 0x60C5, 0x7EEA]),
    ((regex_g
     [[Lit [0x7EDD, 0x671B]],
      [Lit [0x65E0, 0x671B]],
      [Lit [0x6CA1, 0x5E0C, 0x671B]],
      [Lit [0x5B8C, 0x86CB]]]), [0x7EDD, 0x671B, 0x60C5, 0x7EEA]),
    ((regex_gi
     [[Lit [0x5174, 0x594B]],
      [Lit [0x6FC0, 0x52A8]],
      [Lit [0x592A, 0x68D2, 0x4E86]],
      [Lit (ascii ''amazing'')]]), [0x8FC7, 0x5EA6, 0x5174, 0x594B]),
    ((regex_g
     [[Lit [0x5FC5, 0x987B]],
      [Lit [0x4E00, 0x5B9A, 0x8981]],
      [Lit [0x53EA, 0x80FD]],
      [Lit [0x4E0D, 0x5F97, 0x4E0D]]]), [0x5F3A, 0x8FEB, 0x6027, 0x8868, 0x8FBE]),
    ((regex_g
     [[Lit [0x80AF, 0x5B9A, 0x4F1A]],
      [Lit [0x7EDD, 0x5BF9, 0x4F1A]],
      [Lit [0x4E00, 0x5B9A, 0x4F1A]],
      [Lit [0x5FC5, 0x7136]]]), [0x8FC7, 0x5EA6, 0x786E, 0x5B9A]),
    ((regex_g
     [[Lit [0x518D, 0x4E0D], DotStar, Lit [0x5C31], DotStar, Lit [0x6765, 0x4E0D, 0x53CA]],
      [Lit [0x9519, 0x8FC7], DotStar, Lit [0x673A, 0x4F1A]],
      [Lit [0x6700, 0x540E], DotStar, Lit [0x673A, 0x4F1A]]]), [0x7D27, 0x8FEB, 0x611F, 0x5047, 0x8BBE]),
    ((regex_g
     [[Lit [0x522B, 0x4EBA, 0x90FD]],
      [Lit [0x5927, 0x5BB6, 0x90FD]],
      [Lit [0x5F88, 0x591A, 0x4EBA, 0x90FD]],
      [Lit [0x8EAB, 0x8FB9], DotStar, Lit [0x90FD]]]), [0x7FA4, 0x4F53, 0x538B, 0x529B]),
    ((regex_g
     [[Lit [0x5377]],
      [Lit [0x5185, 0x5377]],
      [Lit [0x592A, 0x5377]],
      [Lit [0x5377, 0x6B7B]]]), [0x7ADE, 0x4E89, 0x7126, 0x8651]),
    ((regex_g
     [[Lit [0x6DA6]],
      [Lit [0x8DD1, 0x8DEF]],
      [Lit [0x9003, 0x79BB]],
      [Lit [0x9003]]]), [0x9003, 0x907F, 0x6027, 0x8868, 0x8FBE]),
    ((regex_g
     [[Lit [0x5E9F, 0x4E86]],
      [Lit [0x5B8C, 0x4E86]],
      [Lit [0x51C9, 0x4E86]],
      [Lit [0x6CA1, 0x620F]]]), [0x707E, 0x96BE, 0x5316, 0x601D, 0x7EF4]),
    ((regex_g
     [[Lit [0x662F, 0x4E0D, 0x662F, 0x8BE5]],
      [Lit [0x8981, 0x4E0D, 0x8981]],
      [Lit [0x8BE5, 0x4E0D, 0x8BE5]]]), [0x51B3, 0x7B56, 0x7126, 0x8651])]"

definition STANCE_PATTERNS :: "(RegExp \<times> jsstring) list" where
  "STANCE_PATTERNS = [
    ((regex_g
     [[Lit [0x6211, 0x89C9, 0x5F97], DotStar, Lit [0x5E94, 0x8BE5]]]), [0x9884, 0x8BBE, 0x7ED3, 0x8BBA]),
    ((regex_g
     [[Lit [0x660E, 0x663E], DotStar, Lit [0x66F4, 0x597D]]]), [0x9884, 0x8BBE, 0x504F, 0x597D]),
    ((regex_g
     [[Lit [0x50BB, 0x5B50, 0x624D]]]), [0x8D2C, 0x4F4E, 0x9009, 0x9879]),
    ((regex_g
     [[Lit [0x8C01, 0x4E0D, 0x60F3]]]), [0x5047, 0x8BBE, 0x666E, 0x904D, 0x6027])]"

text \<open>
  The sixteen expression objects above live as long as the module, and each carries a
  mutable \<open>lastIndex\<close>: the only state of the program that outlives a call. The store
  maps the position of an object (0 to 11 in \<open>EMOTIONAL_PATTERNS\<close>, 12 to 15 in
  \<open>STANCE_PATTERNS\<close>) to its \<open>lastIndex\<close>.
\<close>

type_synonym lastIndexStore = "nat \<Rightarrow> nat"

text \<open>One \<open>for ... of\<close> loop of \<open>identifyEmotionalElements\<close>: the elements it pushes,
  and the store it leaves. \<open>k\<close> is the position of the first object of \<open>ps\<close>.\<close>

fun scanPatterns ::
  "(RegExp \<times> jsstring) list \<Rightarrow> nat \<Rightarrow> jsstring \<Rightarrow> lastIndexStore \<Rightarrow> jsstring list \<times> lastIndexStore"
where
  "scanPatterns [] k text st = ([], st)"
| "scanPatterns ((rx, ty) # ps) k text st =
     (let m = stringMatch text rx (st k);
          r = scanPatterns ps (Suc k) text (st(k := snd m))
      in (case fst m of
            None \<Rightarrow> r
          | Some matches \<Rightarrow>
              ((ty @ [0xFF1A, 0x0027] @ join [0x0027, 0x002C, 0x0020, 0x0027] matches @ [0x0027]) # fst r, snd r)))"

definition identifyEmotionalElements :: "jsstring \<Rightarrow> lastIndexStore \<Rightarrow> jsstring list \<times> lastIndexStore" where
  "identifyEmotionalElements text st =
     (let r1 = scanPatterns EMOTIONAL_PATTERNS 0 text st;
          r2 = scanPatterns STANCE_PATTERNS (length EMOTIONAL_PATTERNS) text (snd r1)
      in (fst r1 @ fst r2, snd r2))"

text \<open>The regular expression literals of the five tests of \<open>extractCoreThemes\<close>, in
  the order of the source: career, relocation, education, finance, relationships.\<close>

definition careerPattern :: RegExp where
  "careerPattern = (regex
     [[Lit [0x5DE5, 0x4F5C]],
      [Lit [0x804C, 0x4E1A]],
      [Lit [0x8F6C, 0x884C]],
      [Lit [0x8DF3, 0x69FD]],
      [Lit (ascii ''offer'')],
      [Lit [0x516C, 0x53F8]]])"

definition relocationPattern :: RegExp where
  "relocationPattern = (regex
     [[Lit [0x51FA, 0x56FD]],
      [Lit [0x79FB, 0x6C11]],
      [Lit [0x6DA6]],
      [Lit [0x56FD, 0x5916]],
      [Lit [0x6D77, 0x5916]],
      [Lit [0x7559, 0x5B66]]])"

definition educationPattern :: RegExp where
  "educationPattern = (regex
     [[Lit [0x8BFB, 0x4E66]],
      [Lit [0x5B66, 0x4E60]],
      [Lit [0x8003, 0x7814]],
      [Lit [0x8003, 0x535A]],
      [Lit [0x5B66, 0x5386]],
      [Lit [0x6DF1, 0x9020]]])"

definition financePattern :: RegExp where
  "financePattern = (regex
     [[Lit [0x6295, 0x8D44]],
      [Lit [0x7406, 0x8D22]],
      [Lit [0x4E70, 0x623F]],
      [Lit [0x80A1, 0x7968]],
      [Lit [0x521B, 0x4E1A]],
      [Lit [0x8D5A, 0x94B1]]])"

definition relationshipPattern :: RegExp where
  "relationshipPattern = (regex
     [[Lit [0x7ED3, 0x5A5A]],
      [Lit [0x79BB, 0x5A5A]],
      [Lit [0x5206, 0x624B]],
      [Lit [0x604B, 0x7231]],
      [Lit [0x5BB6, 0x5EAD]],
      [Lit [0x5B69, 0x5B50]]])"

definition extractCoreThemes :: "jsstring \<Rightarrow> jsstring list" where
  "extractCoreThemes text =
     (let themes =
        (if regexTest careerPattern text then [[0x804C, 0x4E1A, 0x53D1, 0x5C55]] else []) @
        (if regexTest relocationPattern text then [[0x5730, 0x7406, 0x8FC1, 0x79FB]] else []) @
        (if regexTest educationPattern text then [[0x6559, 0x80B2, 0x6295, 0x8D44]] else []) @
        (if regexTest financePattern text then [[0x8D22, 0x52A1, 0x51B3, 0x7B56]] else []) @
        (if regexTest relationshipPattern text then [[0x4EBA, 0x751F, 0x5173, 0x7CFB]] else [])
      in if length themes > 0 then themes else [[0x4EBA, 0x751F, 0x51B3, 0x7B56]])"

text \<open>The template object of \<open>generateReframedQuestion\<close>, built from \<open>themeStr\<close>.\<close>

definition templates :: "jsstring \<Rightarrow> (jsstring \<times> jsstring) list" where
  "templates themeStr = [
    ([0x804C, 0x4E1A, 0x53D1, 0x5C55],
     [0x5728, 0x5F53, 0x524D, 0x4E2A, 0x4EBA, 0x6761, 0x4EF6, 0xFF08, 0x6280, 0x80FD, 0x3001, 0x7ECF, 0x9A8C, 0x3001, 0x8D44, 0x6E90, 0xFF09, 0x548C, 0x5E02, 0x573A, 0x73AF, 0x5883, 0x4E0B, 0xFF0C, 0x4E0D, 0x540C] @ themeStr @ [0x8DEF, 0x5F84, 0x7684, 0x957F, 0x671F, 0x6536, 0x76CA, 0x4E0E, 0x98CE, 0x9669, 0x7ED3, 0x6784, 0x662F, 0x4EC0, 0x4E48, 0xFF1F]),
    ([0x5730, 0x7406, 0x8FC1, 0x79FB],
     [0x5728, 0x7ED9, 0x5B9A, 0x4E2A, 0x4EBA, 0x80CC, 0x666F, 0x3001, 0x76EE, 0x6807, 0x548C, 0x7EA6, 0x675F, 0x6761, 0x4EF6, 0x4E0B, 0xFF0C] @ themeStr @ [0x76F8, 0x6BD4, 0x73B0, 0x72B6, 0x7684, 0x957F, 0x671F, 0x4EF7, 0x503C, 0x4E0E, 0x6210, 0x672C, 0x7ED3, 0x6784, 0x662F, 0x4EC0, 0x4E48, 0xFF1F]),
    ([0x6559, 0x80B2, 0x6295, 0x8D44],
     [0x5728, 0x5F53, 0x524D, 0x9636, 0x6BB5, 0x8FDB, 0x884C] @ themeStr @ [0xFF0C, 0x5176, 0x6295, 0x5165, 0x4EA7, 0x51FA, 0x6BD4, 0x548C, 0x673A, 0x4F1A, 0x6210, 0x672C, 0x7ED3, 0x6784, 0x662F, 0x4EC0, 0x4E48, 0xFF1F]),
    ([0x8D22, 0x52A1, 0x51B3, 0x7B56],
     themeStr @ [0x5728, 0x4E0D, 0x540C, 0x60C5, 0x666F, 0x4E0B, 0x7684, 0x98CE, 0x9669, 0x6536, 0x76CA, 0x5206, 0x5E03, 0x548C, 0x4E2A, 0x4EBA, 0x627F, 0x53D7, 0x80FD, 0x529B, 0x5339, 0x914D, 0x5EA6, 0x5982, 0x4F55, 0xFF1F]),
    ([0x4EBA, 0x751F, 0x5173, 0x7CFB],
     themeStr @ [0x51B3, 0x7B56, 0x6D89, 0x53CA, 0x54EA, 0x4E9B, 0x5173, 0x952E, 0x53D8, 0x91CF, 0x3001, 0x7EA6, 0x675F, 0x6761, 0x4EF6, 0x548C, 0x4E0D, 0x786E, 0x5B9A, 0x6027, 0xFF1F]),
    ([0x4EBA, 0x751F, 0x51B3, 0x7B56],
     [0x8BE5, 0x51B3, 0x7B56, 0x6D89, 0x53CA, 0x54EA, 0x4E9B, 0x5173, 0x952E, 0x53D8, 0x91CF, 0x3001, 0x76EE, 0x6807, 0x3001, 0x7EA6, 0x675F, 0x548C, 0x4E0D, 0x786E, 0x5B9A, 0x6027, 0x56E0, 0x7D20, 0xFF1F, 0x4E0D, 0x540C, 0x9009, 0x62E9, 0x7684, 0x7ED3, 0x6784, 0x6027, 0x5DEE, 0x5F02, 0x662F, 0x4EC0, 0x4E48, 0xFF1F])]"

text \<open>\<open>templates[themes[0]] || templates[...]\<close>: a missing key and an empty string
  both fall through to the generic template.\<close>

definition lookupTemplate :: "(jsstring \<times> jsstring) list \<Rightarrow> jsstring \<Rightarrow> jsstring option" where
  "lookupTemplate ts key =
     (case map_of ts key of None \<Rightarrow> None | Some t \<Rightarrow> if t = [] then None else Some t)"

definition generateReframedQuestion :: "jsstring \<Rightarrow> jsstring list \<Rightarrow> jsstring" where
  "generateReframedQuestion text themes =
     (let themeStr = join [0x4E0E] themes;
          ts = templates themeStr;
          generic = (case map_of ts [0x4EBA, 0x751F, 0x51B3, 0x7B56] of Some t \<Rightarrow> t | None \<Rightarrow> [])
      in (case themes of
            [] \<Rightarrow> generic
          | t # _ \<Rightarrow> (case lookupTemplate ts t of Some r \<Rightarrow> r | None \<Rightarrow> generic)))"

definition analyzeAndReframe :: "jsstring \<Rightarrow> lastIndexStore \<Rightarrow> ReframedProblem \<times> lastIndexStore" where
  "analyzeAndReframe problemText st =
     (let r = identifyEmotionalElements problemText st;
          themes = extractCoreThemes problemText
      in (\<lparr>original = problemText,
           reframed = generateReframedQuestion problemText themes,
           emotionalElements = fst r\<rparr>, snd r))"

section \<open>The variable extractor (variables.ts)\<close>

record VariablesAndConstraints =
  goals :: "jsstring list"
  keyVariables :: "jsstring list"
  hardConstraints :: "jsstring list"
  uncertainties :: "jsstring list"

text \<open>The four keyword maps, as the lists of entries that \<open>Object.entries\<close> gives:
  the keys in the order they are written (none of them is an array index).\<close>

definition GOAL_KEYWORDS :: "(jsstring \<times> jsstring list) list" where
  "GOAL_KEYWORDS = [
    ([0x957F, 0x671F, 0x6536, 0x5165, 0x7A33, 0x5B9A, 0x6027],
     [[0x6536, 0x5165],
      [0x5DE5, 0x8D44],
      [0x85AA, 0x8D44],
      [0x8D5A, 0x94B1],
      [0x8D22, 0x52A1],
      [0x7ECF, 0x6D4E]]),
    ([0x804C, 0x4E1A, 0x53D1, 0x5C55, 0x7A7A, 0x95F4],
     [[0x53D1, 0x5C55],
      [0x6210, 0x957F],
      [0x664B, 0x5347],
      [0x804C, 0x4E1A],
      [0x524D, 0x9014],
      [0x673A, 0x4F1A]]),
    ([0x751F, 0x6D3B, 0x8D28, 0x91CF],
     [[0x751F, 0x6D3B],
      [0x5E78, 0x798F],
      [0x5FEB, 0x4E50],
      [0x8212, 0x9002],
      [0x81EA, 0x7531]]),
    ([0x8EAB, 0x4EFD, 0x4E0E, 0x5B89, 0x5168, 0x8FB9, 0x9645],
     [[0x7A33, 0x5B9A],
      [0x5B89, 0x5168],
      [0x4FDD, 0x969C],
      [0x8EAB, 0x4EFD],
      [0x7EFF, 0x5361],
      [0x6C38, 0x5C45]]),
    ([0x6280, 0x672F, 0x002F, 0x6280, 0x80FD, 0x6210, 0x957F],
     [[0x6280, 0x672F],
      [0x6280, 0x80FD],
      [0x5B66, 0x4E60],
      [0x6210, 0x957F],
      [0x63D0, 0x5347]]),
    ([0x5BB6, 0x5EAD, 0x548C, 0x8C10],
     [[0x5BB6, 0x5EAD],
      [0x5B69, 0x5B50],
      [0x7236, 0x6BCD],
      [0x914D, 0x5076],
      [0x5BB6, 0x4EBA]]),
    ([0x793E, 0x4F1A, 0x8BA4, 0x53EF],
     [[0x5730, 0x4F4D],
      [0x9762, 0x5B50],
      [0x8BA4, 0x53EF],
      [0x5C0A, 0x91CD],
      [0x6210, 0x529F]]),
    ([0x4E2A, 0x4EBA, 0x81EA, 0x4E3B, 0x6743],
     [[0x81EA, 0x7531],
      [0x81EA, 0x4E3B],
      [0x9009, 0x62E9],
      [0x63A7, 0x5236],
      [0x72EC, 0x7ACB]])]"

definition VARIABLE_KEYWORDS :: "(jsstring \<times> jsstring list) list" where
  "VARIABLE_KEYWORDS = [
    ([0x5E74, 0x9F84],
     [[0x5E74, 0x9F84],
      [0x5C81],
      [0x5E74, 0x7EAA],
      [0x5E74, 0x8F7B],
      [0x8001, 0x4E86]]),
    ([0x6280, 0x80FD, 0x53EF, 0x8FC1, 0x79FB, 0x6027],
     [[0x6280, 0x80FD],
      [0x80FD, 0x529B],
      [0x7ECF, 0x9A8C],
      [0x4E13, 0x4E1A],
      [0x6280, 0x672F]]),
    ([0x8D44, 0x91D1, 0x50A8, 0x5907],
     [[0x94B1],
      [0x5B58, 0x6B3E],
      [0x8D44, 0x91D1],
      [0x79EF, 0x84C4],
      [0x8D22, 0x52A1]]),
    ([0x8BED, 0x8A00, 0x80FD, 0x529B],
     [[0x8BED, 0x8A00],
      [0x82F1, 0x8BED],
      [0x5916, 0x8BED],
      [0x53E3, 0x8BED]]),
    ([0x4EBA, 0x8109, 0x7F51, 0x7EDC],
     [[0x4EBA, 0x8109],
      [0x5173, 0x7CFB],
      [0x670B, 0x53CB],
      [0x5708, 0x5B50],
      [0x8D44, 0x6E90]]),
    ([0x884C, 0x4E1A, 0x5468, 0x671F],
     [[0x884C, 0x4E1A],
      [0x5E02, 0x573A],
      [0x7ECF, 0x6D4E],
      [0x5468, 0x671F],
      [0x98CE, 0x53E3]]),
    ([0x5BB6, 0x5EAD, 0x72B6, 0x51B5],
     [[0x5BB6, 0x5EAD],
      [0x5B69, 0x5B50],
      [0x914D, 0x5076],
      [0x7236, 0x6BCD]]),
    ([0x5065, 0x5EB7, 0x72B6, 0x51B5],
     [[0x5065, 0x5EB7],
      [0x8EAB, 0x4F53],
      [0x7CBE, 0x529B]]),
    ([0x5B66, 0x5386, 0x80CC, 0x666F],
     [[0x5B66, 0x5386],
      [0x5B66, 0x6821],
      [0x4E13, 0x4E1A],
      [0x6559, 0x80B2]]),
    ([0x5DE5, 0x4F5C, 0x7ECF, 0x9A8C],
     [[0x7ECF, 0x9A8C],
      [0x5DE5, 0x4F5C],
      [0x5C65, 0x5386],
      [0x80CC, 0x666F]])]"

definition CONSTRAINT_KEYWORDS :: "(jsstring \<times> jsstring list) list" where
  "CONSTRAINT_KEYWORDS = [
    ([0x7B7E, 0x8BC1, 0x002F, 0x653F, 0x7B56, 0x9650, 0x5236],
     [[0x7B7E, 0x8BC1],
      [0x653F, 0x7B56],
      [0x79FB, 0x6C11],
      [0x7EFF, 0x5361],
      [0x8EAB, 0x4EFD]]),
    ([0x8D44, 0x91D1, 0x7EA6, 0x675F],
     [[0x94B1, 0x4E0D, 0x591F],
      [0x6210, 0x672C],
      [0x8D39, 0x7528],
      [0x8D1F, 0x62C5, 0x4E0D, 0x8D77]]),
    ([0x65F6, 0x95F4, 0x7A97, 0x53E3],
     [[0x65F6, 0x95F4],
      [0x6765, 0x4E0D, 0x53CA],
      [0x5E74, 0x9F84, 0x9650, 0x5236],
      [0x7A97, 0x53E3, 0x671F]]),
    ([0x5BB6, 0x5EAD, 0x8D23, 0x4EFB],
     [[0x5BB6, 0x5EAD],
      [0x5B69, 0x5B50],
      [0x7236, 0x6BCD],
      [0x8001, 0x4EBA],
      [0x7167, 0x987E]]),
    ([0x5408, 0x540C, 0x002F, 0x627F, 0x8BFA, 0x7EA6, 0x675F],
     [[0x5408, 0x540C],
      [0x7ADE, 0x4E1A],
      [0x8FDD, 0x7EA6],
      [0x627F, 0x8BFA]]),
    ([0x5B66, 0x5386, 0x002F, 0x8D44, 0x8D28, 0x8981, 0x6C42],
     [[0x5B66, 0x5386],
      [0x8D44, 0x8D28],
      [0x8BC1, 0x4E66],
      [0x8BA4, 0x8BC1]]),
    ([0x8BED, 0x8A00, 0x95E8, 0x69DB],
     [[0x8BED, 0x8A00],
      [0x82F1, 0x8BED],
      [0x4E0D, 0x4F1A]]),
    ([0x884C, 0x4E1A, 0x51C6, 0x5165],
     [[0x51C6, 0x5165],
      [0x95E8, 0x69DB],
      [0x8D44, 0x683C],
      [0x9650, 0x5236]])]"

definition UNCERTAINTY_KEYWORDS :: "(jsstring \<times> jsstring list) list" where
  "UNCERTAINTY_KEYWORDS = [
    ([0x653F, 0x7B56, 0x53D8, 0x5316],
     [[0x653F, 0x7B56],
      [0x6CD5, 0x89C4],
      [0x653F, 0x5E9C],
      [0x5236, 0x5EA6]]),
    ([0x7ECF, 0x6D4E, 0x5468, 0x671F, 0x6CE2, 0x52A8],
     [[0x7ECF, 0x6D4E],
      [0x5E02, 0x573A],
      [0x884C, 0x60C5],
      [0x5468, 0x671F],
      [0x73AF, 0x5883]]),
    ([0x884C, 0x4E1A, 0x53D1, 0x5C55, 0x8D8B, 0x52BF],
     [[0x884C, 0x4E1A],
      [0x6280, 0x672F],
      [0x8D8B, 0x52BF],
      [0x672A, 0x6765]]),
    ([0x4E2A, 0x4EBA, 0x5883, 0x9047, 0x53D8, 0x5316],
     [[0x610F, 0x5916],
      [0x53D8, 0x6545],
      [0x7A81, 0x53D1],
      [0x8FD0, 0x6C14]]),
    ([0x56FD, 0x9645, 0x5F62, 0x52BF],
     [[0x56FD, 0x9645],
      [0x5173, 0x7CFB],
      [0x5F62, 0x52BF],
      [0x5730, 0x7F18]]),
    ([0x6280, 0x672F, 0x53D8, 0x9769],
     [ascii ''AI'',
      [0x6280, 0x672F],
      [0x53D8, 0x9769],
      [0x66FF, 0x4EE3],
      [0x81EA, 0x52A8, 0x5316]])]"

text \<open>The inner loop of \<open>matchKeywords\<close>: whether some keyword occurs in the text
  (the loop stops at the first one).\<close>

fun anyKeyword :: "jsstring \<Rightarrow> jsstring list \<Rightarrow> bool" where
  "anyKeyword text [] = False"
| "anyKeyword text (keyword # keywords) =
     (if includesStr text keyword then True else anyKeyword text keywords)"

fun matchKeywords :: "jsstring \<Rightarrow> (jsstring \<times> jsstring list) list \<Rightarrow> jsstring list" where
  "matchKeywords text [] = []"
| "matchKeywords text ((label, keywords) # keywordMap) =
     (if anyKeyword text keywords then label # matchKeywords text keywordMap
      else matchKeywords text keywordMap)"

definition getDefaultGoals :: "jsstring list" where
  "getDefaultGoals = [
    [0x51B3, 0x7B56, 0x7684, 0x957F, 0x671F, 0x4EF7, 0x503C, 0x6700, 0x5927, 0x5316],
    [0x98CE, 0x9669, 0x5728, 0x53EF, 0x627F, 0x53D7, 0x8303, 0x56F4, 0x5185],
    [0x4FDD, 0x7559, 0x8C03, 0x6574, 0x548C, 0x9000, 0x51FA, 0x7684, 0x7075, 0x6D3B, 0x6027]]"

definition getDefaultVariables :: "jsstring list" where
  "getDefaultVariables = [
    [0x4E2A, 0x4EBA, 0x80FD, 0x529B, 0x4E0E, 0x8D44, 0x6E90],
    [0x65F6, 0x95F4, 0x6295, 0x5165],
    [0x5916, 0x90E8, 0x673A, 0x4F1A, 0x4E0E, 0x73AF, 0x5883]]"

definition getDefaultConstraints :: "jsstring list" where
  "getDefaultConstraints = [
    [0x53EF, 0x7528, 0x8D44, 0x6E90, 0xFF08, 0x65F6, 0x95F4, 0x3001, 0x91D1, 0x94B1, 0x3001, 0x7CBE, 0x529B, 0xFF09, 0x7684, 0x6709, 0x9650, 0x6027],
    [0x4FE1, 0x606F, 0x4E0D, 0x5B8C, 0x6574, 0x6027]]"

definition getDefaultUncertainties :: "jsstring list" where
  "getDefaultUncertainties = [
    [0x5916, 0x90E8, 0x73AF, 0x5883, 0x53D8, 0x5316],
    [0x4E2A, 0x4EBA, 0x5883, 0x9047, 0x53D8, 0x5316],
    [0x6267, 0x884C, 0x6548, 0x679C, 0x7684, 0x4E0D, 0x786E, 0x5B9A, 0x6027]]"

definition combinedText :: "ReframedProblem \<Rightarrow> jsstring" where
  "combinedText reframedProblem =
     original reframedProblem @ [0x0020] @ reframed reframedProblem"

definition analyzeVariables :: "ReframedProblem \<Rightarrow> VariablesAndConstraints" where
  "analyzeVariables reframedProblem =
     (let text = combinedText reframedProblem;
          goals0 = matchKeywords text GOAL_KEYWORDS;
          keyVariables0 = matchKeywords text VARIABLE_KEYWORDS;
          hardConstraints0 = matchKeywords text CONSTRAINT_KEYWORDS;
          uncertainties0 = matchKeywords text UNCERTAINTY_KEYWORDS
      in \<lparr>goals = (if length goals0 = 0 then getDefaultGoals else goals0),
          keyVariables =
            (if length keyVariables0 = 0 then getDefaultVariables else keyVariables0),
          hardConstraints =
            (if length hardConstraints0 = 0 then getDefaultConstraints else hardConstraints0),
          uncertainties =
            (if length uncertainties0 = 0 then getDefaultUncertainties else uncertainties0)\<rparr>)"

section \<open>The strategy generator (strategies.ts)\<close>

text \<open>
  \<open>StrategyType\<close> is the union of four string literals. The switches of this module
  run over the entries of \<open>STRATEGY_CONFIGS\<close>, so they see the union as an enumeration;
  a \<open>Strategy\<close> carries the type as the string it is at run time, which is what the risk
  analyzer compares with its template table.
\<close>

datatype StrategyType = Aggressive | Conservative | Hedge | Exit

fun strategyTypeString :: "StrategyType \<Rightarrow> jsstring" where
  "strategyTypeString Aggressive = ascii ''aggressive''"
| "strategyTypeString Conservative = ascii ''conservative''"
| "strategyTypeString Hedge = ascii ''hedge''"
| "strategyTypeString Exit = ascii ''exit''"

record Characteristics =
  timing :: jsstring
  riskLevel :: jsstring
  resourceCommitment :: jsstring

record StrategyConfig =
  config_id :: jsstring
  config_type :: StrategyType
  config_typeLabel :: jsstring
  nameTemplate :: jsstring
  characteristics :: Characteristics

record Strategy =
  strategy_id :: jsstring
  strategy_name :: jsstring
  strategy_type :: jsstring
  typeLabel :: jsstring
  preconditions :: "jsstring list"
  executionCost :: jsstring
  triggerPoints :: "jsstring list"
  worstCase :: jsstring

record StrategySpace =
  strategies :: "Strategy list"

definition STRATEGY_CONFIGS :: "StrategyConfig list" where
  "STRATEGY_CONFIGS = [
    \<lparr>config_id = ascii ''A'', config_type = Aggressive,
     config_typeLabel = [0x6FC0, 0x8FDB, 0x578B], nameTemplate = [0x7ACB, 0x5373, 0x884C, 0x52A8],
     characteristics = \<lparr>timing = [0x7ACB, 0x5373, 0x6267, 0x884C], riskLevel = [0x9AD8, 0x98CE, 0x9669, 0x9AD8, 0x56DE, 0x62A5],
                        resourceCommitment = [0x5168, 0x529B, 0x6295, 0x5165]\<rparr>\<rparr>,
    \<lparr>config_id = ascii ''B'', config_type = Conservative,
     config_typeLabel = [0x4FDD, 0x5B88, 0x578B], nameTemplate = [0x89C2, 0x671B, 0x7B49, 0x5F85],
     characteristics = \<lparr>timing = [0x5EF6, 0x8FDF, 0x6267, 0x884C], riskLevel = [0x4F4E, 0x98CE, 0x9669, 0x7A33, 0x5065],
                        resourceCommitment = [0x4FDD, 0x6301, 0x73B0, 0x72B6]\<rparr>\<rparr>,
    \<lparr>config_id = ascii ''C'', config_type = Hedge,
     config_typeLabel = [0x5BF9, 0x51B2, 0x578B], nameTemplate = [0x53CC, 0x8F68, 0x5E76, 0x884C],
     characteristics = \<lparr>timing = [0x9010, 0x6B65, 0x63A8, 0x8FDB], riskLevel = [0x5206, 0x6563, 0x98CE, 0x9669],
                        resourceCommitment = [0x90E8, 0x5206, 0x6295, 0x5165]\<rparr>\<rparr>,
    \<lparr>config_id = ascii ''D'', config_type = Exit,
     config_typeLabel = [0x6B62, 0x635F, 0x578B], nameTemplate = [0x8F6C, 0x5411, 0x653E, 0x5F03],
     characteristics = \<lparr>timing = [0x53CA, 0x65F6, 0x6B62, 0x635F], riskLevel = [0x89C4, 0x907F, 0x98CE, 0x9669],
                        resourceCommitment = [0x8F6C, 0x79FB, 0x8D44, 0x6E90]\<rparr>\<rparr>]"

fun generatePreconditions :: "StrategyConfig \<Rightarrow> VariablesAndConstraints \<Rightarrow> jsstring list" where
  "generatePreconditions config variables =
     (case config_type config of
        Aggressive \<Rightarrow>
          [[0x5BF9, 0x76EE, 0x6807, 0x6709, 0x6E05, 0x6670, 0x8BA4, 0x77E5, 0x4E14, 0x51B3, 0x5FC3, 0x575A, 0x5B9A],
           [0x5177, 0x5907, 0x57FA, 0x672C, 0x7684, 0x8D44, 0x6E90, 0x548C, 0x80FD, 0x529B, 0x57FA, 0x7840],
           [0x80FD, 0x591F, 0x627F, 0x53D7, 0x5931, 0x8D25, 0x7684, 0x6700, 0x574F, 0x540E, 0x679C]] @
          (if [0x8D44, 0x91D1, 0x50A8, 0x5907] \<in> set (keyVariables variables)
           then [[0x6709, 0x8DB3, 0x591F, 0x7684, 0x8D44, 0x91D1, 0x652F, 0x6301, 0x521D, 0x671F, 0x6295, 0x5165]] else [])
      | Conservative \<Rightarrow>
          [[0x5F53, 0x524D, 0x72B6, 0x6001, 0x53EF, 0x6301, 0x7EED, 0xFF0C, 0x65E0, 0x7D27, 0x8FEB, 0x538B, 0x529B],
           [0x7B49, 0x5F85, 0x671F, 0x95F4, 0x6709, 0x6301, 0x7EED, 0x4FE1, 0x606F, 0x6536, 0x96C6, 0x6E20, 0x9053],
           [0x5EF6, 0x8FDF, 0x884C, 0x52A8, 0x4E0D, 0x4F1A, 0x5BFC, 0x81F4, 0x673A, 0x4F1A, 0x6C38, 0x4E45, 0x4E27, 0x5931]]
      | Hedge \<Rightarrow>
          [[0x6709, 0x7CBE, 0x529B, 0x548C, 0x8D44, 0x6E90, 0x540C, 0x65F6, 0x7EF4, 0x62A4, 0x591A, 0x6761, 0x8DEF, 0x5F84],
           [0x4E24, 0x6761, 0x8DEF, 0x5F84, 0x4E4B, 0x95F4, 0x4E0D, 0x5B58, 0x5728, 0x4E25, 0x91CD, 0x51B2, 0x7A81],
           [0x80FD, 0x591F, 0x8BBE, 0x5B9A, 0x6E05, 0x6670, 0x7684, 0x51B3, 0x7B56, 0x89E6, 0x53D1, 0x70B9]]
      | Exit \<Rightarrow>
          [[0x5B58, 0x5728, 0x53EF, 0x884C, 0x7684, 0x66FF, 0x4EE3, 0x65B9, 0x5411],
           [0x6C89, 0x6CA1, 0x6210, 0x672C, 0x5728, 0x53EF, 0x63A5, 0x53D7, 0x8303, 0x56F4, 0x5185],
           [0x80FD, 0x591F, 0x7406, 0x6027, 0x8BC4, 0x4F30, 0x800C, 0x975E, 0x60C5, 0x7EEA, 0x5316, 0x653E, 0x5F03]])"

fun generateExecutionCost :: "StrategyConfig \<Rightarrow> VariablesAndConstraints \<Rightarrow> jsstring" where
  "generateExecutionCost config variables =
     join [0xFF1B]
       (case config_type config of
          Aggressive \<Rightarrow>
            [[0x65F6, 0x95F4, 0xFF1A, 0x9700, 0x8981, 0x5168, 0x529B, 0x6295, 0x5165, 0xFF0C, 0x53EF, 0x80FD, 0x6301, 0x7EED, 0x6570, 0x6708, 0x81F3, 0x6570, 0x5E74],
             [0x8D44, 0x91D1, 0xFF1A, 0x9700, 0x8981, 0x524D, 0x671F, 0x6295, 0x5165, 0xFF0C, 0x56DE, 0x62A5, 0x5468, 0x671F, 0x4E0D, 0x786E, 0x5B9A],
             [0x673A, 0x4F1A, 0x6210, 0x672C, 0xFF1A, 0x653E, 0x5F03, 0x5176, 0x4ED6, 0x53EF, 0x80FD, 0x7684, 0x8DEF, 0x5F84],
             [0x5FC3, 0x7406, 0x6210, 0x672C, 0xFF1A, 0x627F, 0x53D7, 0x8F83, 0x5927, 0x7684, 0x4E0D, 0x786E, 0x5B9A, 0x6027, 0x538B, 0x529B]]
        | Conservative \<Rightarrow>
            [[0x65F6, 0x95F4, 0xFF1A, 0x7B49, 0x5F85, 0x671F, 0x95F4, 0x7684, 0x65F6, 0x95F4, 0x6D88, 0x8017],
             [0x673A, 0x4F1A, 0x6210, 0x672C, 0xFF1A, 0x53EF, 0x80FD, 0x9519, 0x8FC7, 0x6700, 0x4F73, 0x7A97, 0x53E3, 0x671F],
             [0x5FC3, 0x7406, 0x6210, 0x672C, 0xFF1A, 0x6301, 0x7EED, 0x7684, 0x4E0D, 0x786E, 0x5B9A, 0x611F, 0x548C, 0x7126, 0x8651]]
        | Hedge \<Rightarrow>
            [[0x7CBE, 0x529B, 0xFF1A, 0x9700, 0x8981, 0x540C, 0x65F6, 0x7EF4, 0x62A4, 0x591A, 0x6761, 0x8DEF, 0x5F84, 0xFF0C, 0x53EF, 0x80FD, 0x5206, 0x6563, 0x6CE8, 0x610F, 0x529B],
             [0x8D44, 0x91D1, 0xFF1A, 0x53EF, 0x80FD, 0x9700, 0x8981, 0x53CC, 0x91CD, 0x6295, 0x5165],
             [0x6548, 0x7387, 0x635F, 0x5931, 0xFF1A, 0x65E0, 0x6CD5, 0x5168, 0x529B, 0x6295, 0x5165, 0x4EFB, 0x4E00, 0x65B9, 0x5411]]
        | Exit \<Rightarrow>
            [[0x6C89, 0x6CA1, 0x6210, 0x672C, 0xFF1A, 0x4E4B, 0x524D, 0x7684, 0x6295, 0x5165, 0x53EF, 0x80FD, 0x65E0, 0x6CD5, 0x56DE, 0x6536],
             [0x5FC3, 0x7406, 0x6210, 0x672C, 0xFF1A, 0x9700, 0x8981, 0x63A5, 0x53D7, 0x0027, 0x5931, 0x8D25, 0x0027, 0x6216, 0x0027, 0x653E, 0x5F03, 0x0027, 0x7684, 0x6807, 0x7B7E],
             [0x91CD, 0x5EFA, 0x6210, 0x672C, 0xFF1A, 0x5728, 0x65B0, 0x65B9, 0x5411, 0x91CD, 0x65B0, 0x5F00, 0x59CB, 0x7684, 0x6295, 0x5165]])"

fun generateTriggerPoints :: "StrategyConfig \<Rightarrow> VariablesAndConstraints \<Rightarrow> jsstring list" where
  "generateTriggerPoints config variables =
     (case config_type config of
        Aggressive \<Rightarrow>
          [[0x5173, 0x952E, 0x8D44, 0x6E90, 0x548C, 0x6761, 0x4EF6, 0x5DF2, 0x5230, 0x4F4D],
           [0x5916, 0x90E8, 0x73AF, 0x5883, 0x51FA, 0x73B0, 0x6709, 0x5229, 0x7A97, 0x53E3],
           [0x7EE7, 0x7EED, 0x7B49, 0x5F85, 0x7684, 0x6210, 0x672C, 0x5F00, 0x59CB, 0x8D85, 0x8FC7, 0x884C, 0x52A8, 0x98CE, 0x9669]]
      | Conservative \<Rightarrow>
          [[0x83B7, 0x5F97, 0x66F4, 0x591A, 0x5173, 0x952E, 0x4FE1, 0x606F],
           [0x4E0D, 0x786E, 0x5B9A, 0x6027, 0x663E, 0x8457, 0x964D, 0x4F4E],
           [0x51FA, 0x73B0, 0x660E, 0x786E, 0x7684, 0x6B63, 0x9762, 0x6216, 0x8D1F, 0x9762, 0x4FE1, 0x53F7]] @
          (if [0x653F, 0x7B56, 0x53D8, 0x5316] \<in> set (uncertainties variables)
           then [[0x653F, 0x7B56, 0x73AF, 0x5883, 0x660E, 0x6717, 0x5316]] else [])
      | Hedge \<Rightarrow>
          [[0x8BBE, 0x5B9A, 0x660E, 0x786E, 0x7684, 0x65F6, 0x95F4, 0x8282, 0x70B9, 0x8FDB, 0x884C, 0x8BC4, 0x4F30],
           [0x4EFB, 0x4E00, 0x8DEF, 0x5F84, 0x51FA, 0x73B0, 0x51B3, 0x5B9A, 0x6027, 0x8FDB, 0x5C55],
           [0x8D44, 0x6E90, 0x6D88, 0x8017, 0x8FBE, 0x5230, 0x9884, 0x8BBE, 0x9608, 0x503C]]
      | Exit \<Rightarrow>
          [[0x6838, 0x5FC3, 0x5047, 0x8BBE, 0x88AB, 0x8BC1, 0x4F2A],
           [0x6210, 0x672C, 0x8D85, 0x51FA, 0x9884, 0x8BBE, 0x6B62, 0x635F, 0x7EBF],
           [0x51FA, 0x73B0, 0x66F4, 0x4F18, 0x7684, 0x66FF, 0x4EE3, 0x9009, 0x9879],
           [0x4E2A, 0x4EBA, 0x72B6, 0x51B5, 0x53D1, 0x751F, 0x91CD, 0x5927, 0x53D8, 0x5316]])"

fun generateWorstCase :: "StrategyConfig \<Rightarrow> jsstring list \<Rightarrow> jsstring" where
  "generateWorstCase config constraints =
     (case config_type config of
        Aggressive \<Rightarrow>
          [0x5168, 0x529B, 0x6295, 0x5165, 0x540E, 0x5931, 0x8D25, 0xFF0C, 0x635F, 0x5931, 0x5927, 0x91CF, 0x65F6, 0x95F4, 0x3001, 0x8D44, 0x91D1, 0x548C, 0x673A, 0x4F1A, 0x6210, 0x672C, 0xFF0C, 0x4E14, 0x96BE, 0x4EE5, 0x56DE, 0x5230, 0x539F, 0x70B9, 0x3002, 0x53EF, 0x80FD, 0x9700, 0x8981, 0x627F, 0x53D7, 0x8F83, 0x957F, 0x7684, 0x6062, 0x590D, 0x671F, 0x3002]
      | Conservative \<Rightarrow>
          [0x7B49, 0x5F85, 0x671F, 0x95F4, 0x7A97, 0x53E3, 0x5173, 0x95ED, 0xFF0C, 0x6700, 0x4F73, 0x65F6, 0x673A, 0x6C38, 0x4E45, 0x9519, 0x8FC7, 0x3002, 0x6216, 0x8005, 0x73AF, 0x5883, 0x6076, 0x5316, 0xFF0C, 0x540E, 0x7EED, 0x884C, 0x52A8, 0x6210, 0x672C, 0x5927, 0x5E45, 0x4E0A, 0x5347, 0x3002]
      | Hedge \<Rightarrow>
          [0x4E24, 0x8FB9, 0x90FD, 0x672A, 0x80FD, 0x53D6, 0x5F97, 0x5B9E, 0x8D28, 0x8FDB, 0x5C55, 0xFF0C, 0x8D44, 0x6E90, 0x5206, 0x6563, 0x5BFC, 0x81F4, 0x7ADE, 0x4E89, 0x529B, 0x4E0D, 0x8DB3, 0x3002, 0x6700, 0x7EC8, 0x53EF, 0x80FD, 0x4E24, 0x8FB9, 0x90FD, 0x5931, 0x53BB, 0x673A, 0x4F1A, 0x3002]
      | Exit \<Rightarrow>
          [0x653E, 0x5F03, 0x540E, 0x539F, 0x65B9, 0x5411, 0x610F, 0x5916, 0x53D8, 0x597D, 0xFF0C, 0x4EA7, 0x751F, 0x5F3A, 0x70C8, 0x540E, 0x6094, 0x3002, 0x6216, 0x8005, 0x65B0, 0x65B9, 0x5411, 0x4E5F, 0x4E0D, 0x5982, 0x9884, 0x671F, 0xFF0C, 0x9677, 0x5165, 0x0027, 0x8349, 0x5730, 0x66F4, 0x7EFF, 0x0027, 0x7684, 0x5FAA, 0x73AF, 0x3002])"

definition generateStrategy :: "VariablesAndConstraints \<Rightarrow> StrategyConfig \<Rightarrow> Strategy" where
  "generateStrategy variables config =
     \<lparr>strategy_id = config_id config,
      strategy_name = [0x7B56, 0x7565, 0x0020] @ config_id config @ [0xFF1A] @ nameTemplate config,
      strategy_type = strategyTypeString (config_type config),
      typeLabel = config_typeLabel config,
      preconditions = generatePreconditions config variables,
      executionCost = generateExecutionCost config variables,
      triggerPoints = generateTriggerPoints config variables,
      worstCase = generateWorstCase config (hardConstraints variables)\<rparr>"

definition generateStrategies :: "ReframedProblem \<Rightarrow> VariablesAndConstraints \<Rightarrow> StrategySpace" where
  "generateStrategies reframedProblem variables =
     \<lparr>strategies = map (generateStrategy variables) STRATEGY_CONFIGS\<rparr>"

section \<open>The risk analyzer (risk.ts)\<close>

text \<open>
  A JavaScript number is a double. The numbers of this module are modelled as reals,
  and the rounding of an arithmetic result to a double is the parameter \<open>fl\<close> of the
  functions below. It stands at the two operations of the module that are inexact on the
  values they meet, the division and the multiplication of the normalization. The other
  operations of \<open>analyzeRisk\<close> are exact in double arithmetic on the values they meet:
  the quotient \<open>length / 4\<close>, the level (a multiple of \<open>1/4\<close> between 0 and 1), its
  products with \<open>-5\<close> and \<open>2.5\<close>, and the sums with the template probabilities and the
  total (multiples of \<open>1/8\<close> below 1000). \<open>roundsLikeDouble\<close> is what rounding to the
  nearest double guarantees on the range the module uses: a relative error of at most
  \<open>2^-53\<close>.
\<close>

definition roundsLikeDouble :: "(real \<Rightarrow> real) \<Rightarrow> bool" where
  "roundsLikeDouble fl =
     (\<forall>x. 1 / 1000 \<le> x \<and> x \<le> 1000 \<longrightarrow> \<bar>fl x - x\<bar> \<le> x / 2 ^ 53)"

record OutcomeDistribution =
  probability :: real
  description :: jsstring

record TemplateEntry =
  template_probability :: real
  template :: jsstring

record DistributionTemplate =
  strategyType :: jsstring
  template_distributions :: "TemplateEntry list"

record RiskRewardAnalysis =
  strategyId :: jsstring
  strategyName :: jsstring
  distributions :: "OutcomeDistribution list"

definition DISTRIBUTION_TEMPLATES :: "DistributionTemplate list" where
  "DISTRIBUTION_TEMPLATES = [
    \<lparr>strategyType = ascii ''aggressive'',
     template_distributions = [
       \<lparr>template_probability = 20, template = [0x76EE, 0x6807, 0x8FBE, 0x6210, 0xFF0C, 0x6536, 0x76CA, 0x7B26, 0x5408, 0x6216, 0x8D85, 0x51FA, 0x9884, 0x671F]\<rparr>,
       \<lparr>template_probability = 35, template = [0x90E8, 0x5206, 0x8FBE, 0x6210, 0xFF0C, 0x7ED3, 0x679C, 0x4F4E, 0x4E8E, 0x9884, 0x671F, 0x4F46, 0x6709, 0x6240, 0x6536, 0x83B7]\<rparr>,
       \<lparr>template_probability = 30, template = [0x9047, 0x5230, 0x8F83, 0x5927, 0x963B, 0x529B, 0xFF0C, 0x9700, 0x8981, 0x8C03, 0x6574, 0x8BA1, 0x5212, 0x6216, 0x5EF6, 0x957F, 0x5468, 0x671F]\<rparr>,
       \<lparr>template_probability = 15, template = [0x6267, 0x884C, 0x5931, 0x8D25, 0xFF0C, 0x9700, 0x8981, 0x627F, 0x53D7, 0x635F, 0x5931, 0x5E76, 0x91CD, 0x65B0, 0x89C4, 0x5212]\<rparr>]\<rparr>,
    \<lparr>strategyType = ascii ''conservative'',
     template_distributions = [
       \<lparr>template_probability = 25, template = [0x7B49, 0x5F85, 0x671F, 0x95F4, 0x60C5, 0x51B5, 0x660E, 0x6717, 0xFF0C, 0x83B7, 0x5F97, 0x66F4, 0x597D, 0x7684, 0x884C, 0x52A8, 0x65F6, 0x673A]\<rparr>,
       \<lparr>template_probability = 30, template = [0x60C5, 0x51B5, 0x672A, 0x660E, 0x663E, 0x53D8, 0x5316, 0xFF0C, 0x7EE7, 0x7EED, 0x5904, 0x4E8E, 0x7B49, 0x5F85, 0x72B6, 0x6001]\<rparr>,
       \<lparr>template_probability = 25, template = [0x7A97, 0x53E3, 0x671F, 0x6536, 0x7A84, 0xFF0C, 0x540E, 0x7EED, 0x884C, 0x52A8, 0x6210, 0x672C, 0x4E0A, 0x5347]\<rparr>,
       \<lparr>template_probability = 20, template = [0x673A, 0x4F1A, 0x4E27, 0x5931, 0xFF0C, 0x9700, 0x8981, 0x8F6C, 0x5411, 0x5176, 0x4ED6, 0x8DEF, 0x5F84]\<rparr>]\<rparr>,
    \<lparr>strategyType = ascii ''hedge'',
     template_distributions = [
       \<lparr>template_probability = 20, template = [0x4E3B, 0x8DEF, 0x5F84, 0x6210, 0x529F, 0xFF0C, 0x5907, 0x9009, 0x8DEF, 0x5F84, 0x5E73, 0x7A33, 0x9000, 0x51FA]\<rparr>,
       \<lparr>template_probability = 35, template = [0x4E24, 0x6761, 0x8DEF, 0x5F84, 0x90FD, 0x6709, 0x8FDB, 0x5C55, 0xFF0C, 0x9700, 0x8981, 0x505A, 0x51FA, 0x6700, 0x7EC8, 0x9009, 0x62E9]\<rparr>,
       \<lparr>template_probability = 30, template = [0x7CBE, 0x529B, 0x5206, 0x6563, 0xFF0C, 0x4E24, 0x6761, 0x8DEF, 0x5F84, 0x8FDB, 0x5C55, 0x90FD, 0x4E0D, 0x7406, 0x60F3]\<rparr>,
       \<lparr>template_probability = 15, template = [0x8D44, 0x6E90, 0x8017, 0x5C3D, 0xFF0C, 0x88AB, 0x8FEB, 0x653E, 0x5F03, 0x5176, 0x4E2D, 0x4E00, 0x6761, 0x6216, 0x4E24, 0x6761, 0x8DEF, 0x5F84]\<rparr>]\<rparr>,
    \<lparr>strategyType = ascii ''exit'',
     template_distributions = [
       \<lparr>template_probability = 30, template = [0x6210, 0x529F, 0x8F6C, 0x5411, 0xFF0C, 0x65B0, 0x65B9, 0x5411, 0x53D1, 0x5C55, 0x826F, 0x597D]\<rparr>,
       \<lparr>template_probability = 35, template = [0x8F6C, 0x5411, 0x540E, 0x9700, 0x8981, 0x8F83, 0x957F, 0x9002, 0x5E94, 0x671F, 0xFF0C, 0x77ED, 0x671F, 0x5185, 0x6709, 0x9635, 0x75DB]\<rparr>,
       \<lparr>template_probability = 20, template = [0x65B0, 0x65B9, 0x5411, 0x4E5F, 0x9047, 0x5230, 0x6311, 0x6218, 0xFF0C, 0x9700, 0x8981, 0x518D, 0x6B21, 0x8C03, 0x6574]\<rparr>,
       \<lparr>template_probability = 15, template = [0x4EA7, 0x751F, 0x540E, 0x6094, 0x60C5, 0x7EEA, 0xFF0C, 0x5BF9, 0x653E, 0x5F03, 0x7684, 0x8DEF, 0x5F84, 0x5FF5, 0x5FF5, 0x4E0D, 0x5FD8]\<rparr>]\<rparr>]"

definition uncertaintyLevel :: "jsstring list \<Rightarrow> real" where
  "uncertaintyLevel uncs = min (real (length uncs) / 4) 1"

text \<open>The callback of the \<open>map\<close> in \<open>adjustForUncertainties\<close>, applied to a bucket and
  its index.\<close>

definition adjustOne :: "real \<Rightarrow> nat \<times> OutcomeDistribution \<Rightarrow> OutcomeDistribution" where
  "adjustOne level = (\<lambda>(index, d).
     (let isMiddle = (index = 1 \<or> index = 2);
          adjustment = (if isMiddle then - 5 * level else 2.5 * level)
      in d\<lparr>probability := max 5 (min 50 (probability d + adjustment))\<rparr>))"

definition adjustForUncertainties ::
  "OutcomeDistribution list \<Rightarrow> jsstring list \<Rightarrow> OutcomeDistribution list" where
  "adjustForUncertainties ds uncs =
     map (adjustOne (uncertaintyLevel uncs)) (enumerate 0 ds)"

text \<open>\<open>Math.round\<close>: the nearest integer, a tie going up.\<close>

definition mathRound :: "real \<Rightarrow> real" where
  "mathRound x = of_int \<lfloor>x + 1 / 2\<rfloor>"

text \<open>
  \<open>normalizeProbabilities\<close>. In \<open>analyzeRisk\<close> its argument comes out of
  \<open>adjustForUncertainties\<close>, so every probability is at least 5 and the total of a
  non-empty list is positive: the division is never one by zero there.
\<close>

definition normalizeProbabilities ::
  "(real \<Rightarrow> real) \<Rightarrow> OutcomeDistribution list \<Rightarrow> OutcomeDistribution list" where
  "normalizeProbabilities fl ds =
     (let total = foldl (\<lambda>sum d. sum + probability d) 0 ds
      in map (\<lambda>d. d\<lparr>probability := mathRound (fl (fl (probability d / total) * 100))\<rparr>) ds)"

definition defaultDistributions :: "OutcomeDistribution list" where
  "defaultDistributions = [
     \<lparr>probability = 25, description = [0x7ED3, 0x679C, 0x597D, 0x4E8E, 0x9884, 0x671F]\<rparr>,
     \<lparr>probability = 50, description = [0x7ED3, 0x679C, 0x7B26, 0x5408, 0x9884, 0x671F]\<rparr>,
     \<lparr>probability = 25, description = [0x7ED3, 0x679C, 0x4F4E, 0x4E8E, 0x9884, 0x671F]\<rparr>]"

text \<open>\<open>DISTRIBUTION_TEMPLATES.find(t => t.strategyType === strategy.type)\<close>; \<open>None\<close> is
  \<open>undefined\<close>.\<close>

definition findTemplate :: "Strategy \<Rightarrow> DistributionTemplate option" where
  "findTemplate strategy =
     find (\<lambda>t. strategyType t = strategy_type strategy) DISTRIBUTION_TEMPLATES"

text \<open>The callback of the \<open>map\<close> in \<open>analyzeRisk\<close>.\<close>

definition analyzeStrategyRisk ::
  "(real \<Rightarrow> real) \<Rightarrow> VariablesAndConstraints \<Rightarrow> Strategy \<Rightarrow> RiskRewardAnalysis" where
  "analyzeStrategyRisk fl variables strategy =
     (case findTemplate strategy of
        None \<Rightarrow>
          \<lparr>strategyId = strategy_id strategy,
           strategyName = strategy_name strategy,
           distributions = defaultDistributions\<rparr>
      | Some t \<Rightarrow>
          (let ds0 = map (\<lambda>d. \<lparr>probability = template_probability d,
                                 description = template d\<rparr>) (template_distributions t);
               ds1 = adjustForUncertainties ds0 (uncertainties variables);
               ds2 = normalizeProbabilities fl ds1
           in \<lparr>strategyId = strategy_id strategy,
               strategyName = strategy_name strategy,
               distributions = ds2\<rparr>))"

definition analyzeRisk ::
  "(real \<Rightarrow> real) \<Rightarrow> StrategySpace \<Rightarrow> VariablesAndConstraints \<Rightarrow> RiskRewardAnalysis list" where
  "analyzeRisk fl strategySpace variables =
     map (analyzeStrategyRisk fl variables) (strategies strategySpace)"

section \<open>The bias detector (bias.ts)\<close>

datatype BiasType =
  Survivorship | Narrative | GroupPressure | ShortTermFocus
  | ConfirmationBias | AnchoringBias | SunkCostFallacy | Other

record BiasRule =
  rule_type :: BiasType
  rule_typeLabel :: jsstring
  patterns :: "RegExp list"
  rule_description :: jsstring
  rule_mitigation :: jsstring

record CognitiveBias =
  bias_type :: BiasType
  bias_typeLabel :: jsstring
  bias_description :: jsstring
  bias_mitigation :: jsstring

definition BIAS_RULES :: "BiasRule list" where
  "BIAS_RULES = [
    \<lparr>rule_type = Survivorship,
     rule_typeLabel = [0x5E78, 0x5B58, 0x8005, 0x504F, 0x5DEE],
     patterns = [
       (regex
     [[Lit [0x522B, 0x4EBA], DotStar, Lit [0x6210, 0x529F]]]),
       (regex
     [[Lit [0x6709, 0x4EBA], DotStar, Lit [0x505A, 0x5230]]]),
       (regex
     [[Lit [0x670B, 0x53CB], DotStar, Lit [0x5B9E, 0x73B0]]]),
       (regex
     [[Lit [0x770B, 0x5230], DotStar, Lit [0x6848, 0x4F8B]]]),
       (regex
     [[Lit [0x6210, 0x529F], DotStar, Lit [0x4F8B, 0x5B50]]]),
       (regex
     [[Lit [0x0058, 0x0058, 0x0058, 0x90FD, 0x80FD]]]),
       (regex
     [[Lit [0x4EBA, 0x5BB6, 0x90FD]]])],
     rule_description = [0x53EF, 0x80FD, 0x5C06, 0x4E2A, 0x522B, 0x6210, 0x529F, 0x6848, 0x4F8B, 0x8BEF, 0x8BA4, 0x4E3A, 0x666E, 0x904D, 0x8DEF, 0x5F84, 0xFF0C, 0x5FFD, 0x89C6, 0x4E86, 0x5927, 0x91CF, 0x672A, 0x80FD, 0x6210, 0x529F, 0x7684, 0x6848, 0x4F8B],
     rule_mitigation = [0x5EFA, 0x8BAE, 0xFF1A, 0x4E3B, 0x52A8, 0x5BFB, 0x627E, 0x5931, 0x8D25, 0x6848, 0x4F8B, 0xFF0C, 0x4E86, 0x89E3, 0x5931, 0x8D25, 0x7684, 0x539F, 0x56E0, 0x548C, 0x6982, 0x7387, 0x3002, 0x5173, 0x6CE8, 0x57FA, 0x7840, 0x7387, 0x800C, 0x975E, 0x4E2A, 0x6848, 0x3002]\<rparr>,
    \<lparr>rule_type = Narrative,
     rule_typeLabel = [0x53D9, 0x4E8B, 0x8C2C, 0x8BEF],
     patterns = [
       (regex
     [[Lit [0x542C, 0x8BF4]]]),
       (regex
     [[Lit [0x636E, 0x8BF4]]]),
       (regex
     [[Lit [0x6709, 0x4E2A, 0x6545, 0x4E8B]]]),
       (regex
     [[Lit [0x770B, 0x4E86], DotStar, Lit [0x6587, 0x7AE0]]]),
       (regex
     [[Lit [0x7F51, 0x4E0A, 0x8BF4]]]),
       (regex
     [[Lit [0x5927, 0x0056, 0x8BF4]]]),
       (regex
     [[Lit [0x535A, 0x4E3B]]]),
       (regex
     [[Lit [0x0075, 0x0070, 0x4E3B]]])],
     rule_description = [0x53EF, 0x80FD, 0x88AB, 0x6545, 0x4E8B, 0x548C, 0x53D9, 0x4E8B, 0x5F71, 0x54CD, 0x51B3, 0x7B56, 0xFF0C, 0x800C, 0x975E, 0x57FA, 0x4E8E, 0x6570, 0x636E, 0x548C, 0x7CFB, 0x7EDF, 0x6027, 0x5206, 0x6790],
     rule_mitigation = [0x5EFA, 0x8BAE, 0xFF1A, 0x533A, 0x5206, 0x6545, 0x4E8B, 0x548C, 0x6570, 0x636E, 0xFF0C, 0x5BFB, 0x627E, 0x7CFB, 0x7EDF, 0x6027, 0x7684, 0x7EDF, 0x8BA1, 0x4FE1, 0x606F, 0x3002, 0x8B66, 0x60D5, 0x60C5, 0x7EEA, 0x5316, 0x7684, 0x6210, 0x529F, 0x5B66, 0x53D9, 0x4E8B, 0x3002]\<rparr>,
    \<lparr>rule_type = GroupPressure,
     rule_typeLabel = [0x7FA4, 0x4F53, 0x538B, 0x529B],
     patterns = [
       (regex
     [[Lit [0x5927, 0x5BB6, 0x90FD]]]),
       (regex
     [[Lit [0x522B, 0x4EBA, 0x90FD]]]),
       (regex
     [[Lit [0x8EAB, 0x8FB9], DotStar, Lit [0x90FD]]]),
       (regex
     [[Lit [0x670B, 0x53CB, 0x90FD]]]),
       (regex
     [[Lit [0x540C, 0x4E8B, 0x90FD]]]),
       (regex
     [[Lit [0x540C, 0x9F84, 0x4EBA]]]),
       (regex
     [[Lit [0x5468, 0x56F4], DotStar, Lit [0x4EBA]]]),
       (regex
     [[Lit [0x8D8B, 0x52BF]]]),
       (regex
     [[Lit [0x98CE, 0x53E3]]])],
     rule_description = [0x53EF, 0x80FD, 0x56E0, 0x4E3A, 0x0027, 0x5927, 0x5BB6, 0x90FD, 0x8FD9, 0x6837, 0x505A, 0x0027, 0x800C, 0x4EA7, 0x751F, 0x8DDF, 0x98CE, 0x51B2, 0x52A8, 0xFF0C, 0x5FFD, 0x89C6, 0x4E86, 0x4E2A, 0x4EBA, 0x6761, 0x4EF6, 0x7684, 0x5DEE, 0x5F02, 0x6027],
     rule_mitigation = [0x5EFA, 0x8BAE, 0xFF1A, 0x660E, 0x786E, 0x81EA, 0x5DF1, 0x7684, 0x72EC, 0x7279, 0x6761, 0x4EF6, 0x548C, 0x76EE, 0x6807, 0xFF0C, 0x4E0D, 0x540C, 0x4EBA, 0x9002, 0x5408, 0x4E0D, 0x540C, 0x8DEF, 0x5F84, 0x3002, 0x907F, 0x514D, 0x4E3A, 0x4E86, 0x0027, 0x4E0D, 0x843D, 0x540E, 0x0027, 0x800C, 0x76F2, 0x76EE, 0x8DDF, 0x98CE, 0x3002]\<rparr>,
    \<lparr>rule_type = ShortTermFocus,
     rule_typeLabel = [0x77ED, 0x671F, 0x805A, 0x7126, 0x504F, 0x5DEE],
     patterns = [
       (regex
     [[Lit [0x9A6C, 0x4E0A]]]),
       (regex
     [[Lit [0x7ACB, 0x523B]]]),
       (regex
     [[Lit [0x8D76, 0x7D27]]]),
       (regex
     [[Lit [0x6765, 0x4E0D, 0x53CA]]]),
       (regex
     [[Lit [0x9519, 0x8FC7]]]),
       (regex
     [[Lit [0x6700, 0x540E], DotStar, Lit [0x673A, 0x4F1A]]]),
       (regex
     [[Lit [0x7A97, 0x53E3], DotStar, Lit [0x5173, 0x95ED]]]),
       (regex
     [[Lit [0x518D, 0x4E0D], DotStar, Lit [0x5C31]]])],
     rule_description = [0x53EF, 0x80FD, 0x8FC7, 0x5EA6, 0x5173, 0x6CE8, 0x77ED, 0x671F, 0x7ED3, 0x679C, 0x548C, 0x7D27, 0x8FEB, 0x611F, 0xFF0C, 0x800C, 0x5FFD, 0x89C6, 0x957F, 0x671F, 0x7ED3, 0x6784, 0x6027, 0x56E0, 0x7D20],
     rule_mitigation = [0x5EFA, 0x8BAE, 0xFF1A, 0x62C9, 0x957F, 0x65F6, 0x95F4, 0x7EF4, 0x5EA6, 0x601D, 0x8003, 0xFF0C, 0x533A, 0x5206, 0x0027, 0x771F, 0x7D27, 0x8FEB, 0x0027, 0x548C, 0x0027, 0x5047, 0x7D27, 0x8FEB, 0x0027, 0x3002, 0x591A, 0x6570, 0x4EBA, 0x751F, 0x51B3, 0x7B56, 0x7684, 0x5F71, 0x54CD, 0x662F, 0x957F, 0x671F, 0x7684, 0x3002]\<rparr>,
    \<lparr>rule_type = ConfirmationBias,
     rule_typeLabel = [0x786E, 0x8BA4, 0x504F, 0x5DEE],
     patterns = [
       (regex
     [[Lit [0x6211, 0x89C9, 0x5F97], DotStar, Lit [0x5E94, 0x8BE5]]]),
       (regex
     [[Lit [0x6211, 0x8BA4, 0x4E3A], DotStar, Lit [0x5BF9]]]),
       (regex
     [[Lit [0x660E, 0x663E], DotStar, Lit [0x66F4, 0x597D]]]),
       (regex
     [[Lit [0x80AF, 0x5B9A, 0x662F]]]),
       (regex
     [[Lit [0x6BEB, 0x65E0, 0x7591, 0x95EE]]]),
       (regex
     [[Lit [0x600E, 0x4E48, 0x770B, 0x90FD]]])],
     rule_description = [0x53EF, 0x80FD, 0x53EA, 0x5173, 0x6CE8, 0x652F, 0x6301, 0x5DF2, 0x6709, 0x89C2, 0x70B9, 0x7684, 0x4FE1, 0x606F, 0xFF0C, 0x5FFD, 0x89C6, 0x6216, 0x8D2C, 0x4F4E, 0x76F8, 0x53CD, 0x7684, 0x8BC1, 0x636E],
     rule_mitigation = [0x5EFA, 0x8BAE, 0xFF1A, 0x4E3B, 0x52A8, 0x5BFB, 0x627E, 0x53CD, 0x5BF9, 0x610F, 0x89C1, 0xFF0C, 0x5C1D, 0x8BD5, 0x8BBA, 0x8BC1, 0x76F8, 0x53CD, 0x7ACB, 0x573A, 0x3002, 0x95EE, 0x81EA, 0x5DF1, 0xFF1A, 0x0027, 0x4EC0, 0x4E48, 0x60C5, 0x51B5, 0x4E0B, 0x6211, 0x4F1A, 0x6539, 0x53D8, 0x60F3, 0x6CD5, 0xFF1F, 0x0027]\<rparr>,
    \<lparr>rule_type = AnchoringBias,
     rule_typeLabel = [0x951A, 0x5B9A, 0x6548, 0x5E94],
     patterns = [
       (regex
     [[Lit [0x4E00, 0x5F00, 0x59CB]]]),
       (regex
     [[Lit [0x6700, 0x521D]]]),
       (regex
     [[Lit [0x7B2C, 0x4E00], DotStar, Lit [0x60F3, 0x6CD5]]]),
       (regex
     [[Lit [0x672C, 0x6765, 0x4EE5, 0x4E3A]]]),
       (regex
     [[Lit [0x539F, 0x672C], DotStar, Lit [0x8BA1, 0x5212]]])],
     rule_description = [0x53EF, 0x80FD, 0x8FC7, 0x5EA6, 0x4F9D, 0x8D56, 0x6700, 0x521D, 0x83B7, 0x5F97, 0x7684, 0x4FE1, 0x606F, 0x6216, 0x7B2C, 0x4E00, 0x5370, 0x8C61, 0xFF0C, 0x96BE, 0x4EE5, 0x6839, 0x636E, 0x65B0, 0x4FE1, 0x606F, 0x8C03, 0x6574, 0x5224, 0x65AD],
     rule_mitigation = [0x5EFA, 0x8BAE, 0xFF1A, 0x5B9A, 0x671F, 0x91CD, 0x65B0, 0x8BC4, 0x4F30, 0x5047, 0x8BBE, 0xFF0C, 0x8003, 0x8651, 0x5982, 0x679C, 0x4ECE, 0x96F6, 0x5F00, 0x59CB, 0x4F1A, 0x600E, 0x4E48, 0x9009, 0x62E9, 0x3002, 0x907F, 0x514D, 0x88AB, 0x6C89, 0x6CA1, 0x6210, 0x672C, 0x5F71, 0x54CD, 0x3002]\<rparr>,
    \<lparr>rule_type = SunkCostFallacy,
     rule_typeLabel = [0x6C89, 0x6CA1, 0x6210, 0x672C, 0x8C2C, 0x8BEF],
     patterns = [
       (regex
     [[Lit [0x5DF2, 0x7ECF], DotStar, Lit [0x6295, 0x5165]]]),
       (regex
     [[Lit [0x82B1, 0x4E86], DotStar, Lit [0x65F6, 0x95F4]]]),
       (regex
     [[Lit [0x4ED8, 0x51FA], DotStar, Lit [0x52AA, 0x529B]]]),
       (regex
     [[Lit [0x4E0D, 0x80FD], DotStar, Lit [0x767D, 0x8D39]]]),
       (regex
     [[Lit [0x575A, 0x6301], DotStar, Lit [0x8FD9, 0x4E48, 0x4E45]]]),
       (regex
     [[Lit [0x653E, 0x5F03], DotStar, Lit [0x53EF, 0x60DC]]])],
     rule_description = [0x53EF, 0x80FD, 0x56E0, 0x4E3A, 0x5DF2, 0x7ECF, 0x6295, 0x5165, 0x7684, 0x6210, 0x672C, 0x800C, 0x575A, 0x6301, 0x9519, 0x8BEF, 0x65B9, 0x5411, 0xFF0C, 0x65E0, 0x6CD5, 0x7406, 0x6027, 0x6B62, 0x635F],
     rule_mitigation = [0x5EFA, 0x8BAE, 0xFF1A, 0x5173, 0x6CE8, 0x672A, 0x6765, 0x7684, 0x6210, 0x672C, 0x548C, 0x6536, 0x76CA, 0xFF0C, 0x800C, 0x975E, 0x8FC7, 0x53BB, 0x7684, 0x6295, 0x5165, 0x3002, 0x95EE, 0x81EA, 0x5DF1, 0xFF1A, 0x0027, 0x5982, 0x679C, 0x91CD, 0x65B0, 0x9009, 0x62E9, 0xFF0C, 0x8FD8, 0x4F1A, 0x8FD9, 0x6837, 0x505A, 0x5417, 0xFF1F, 0x0027]\<rparr>]"

text \<open>\<open>Object.entries(EMOTIONAL_BIAS_MAP)\<close>: the entries in the order they are written.\<close>

definition EMOTIONAL_BIAS_MAP :: "(jsstring \<times> BiasType) list" where
  "EMOTIONAL_BIAS_MAP = [
    ([0x7FA4, 0x4F53, 0x538B, 0x529B], GroupPressure),
    ([0x7D27, 0x8FEB, 0x611F, 0x5047, 0x8BBE], ShortTermFocus),
    ([0x7ADE, 0x4E89, 0x7126, 0x8651], GroupPressure),
    ([0x9884, 0x8BBE, 0x7ED3, 0x8BBA], ConfirmationBias),
    ([0x9884, 0x8BBE, 0x504F, 0x597D], ConfirmationBias)]"

text \<open>The inner loop of \<open>detectBiasesFromText\<close>: whether some pattern of the rule
  matches (the loop stops at the first one). The patterns have no \<open>g\<close> flag.\<close>

fun anyPattern :: "RegExp list \<Rightarrow> jsstring \<Rightarrow> bool" where
  "anyPattern [] text = False"
| "anyPattern (pattern # ps) text =
     (if regexTest pattern text then True else anyPattern ps text)"

definition ruleBias :: "BiasRule \<Rightarrow> CognitiveBias" where
  "ruleBias rule =
     \<lparr>bias_type = rule_type rule,
      bias_typeLabel = rule_typeLabel rule,
      bias_description = rule_description rule,
      bias_mitigation = rule_mitigation rule\<rparr>"

text \<open>The outer loop, over the rules, carrying \<open>biases\<close> and \<open>detectedTypes\<close>.\<close>

fun detectLoop ::
  "BiasRule list \<Rightarrow> jsstring \<Rightarrow> CognitiveBias list \<times> BiasType set \<Rightarrow> CognitiveBias list \<times> BiasType set"
where
  "detectLoop [] text st = st"
| "detectLoop (rule # rules) text (biases, detectedTypes) =
     (if rule_type rule \<in> detectedTypes then detectLoop rules text (biases, detectedTypes)
      else if anyPattern (patterns rule) text
      then detectLoop rules text (biases @ [ruleBias rule], insert (rule_type rule) detectedTypes)
      else detectLoop rules text (biases, detectedTypes))"

definition detectBiasesFromText :: "jsstring \<Rightarrow> CognitiveBias list" where
  "detectBiasesFromText text = fst (detectLoop BIAS_RULES text ([], {}))"

text \<open>The inner loop of \<open>inferBiasesFromEmotions\<close>, over the entries of the map, for
  one element.\<close>

fun inferEntries ::
  "(jsstring \<times> BiasType) list \<Rightarrow> jsstring \<Rightarrow> CognitiveBias list \<times> BiasType set
     \<Rightarrow> CognitiveBias list \<times> BiasType set"
where
  "inferEntries [] element st = st"
| "inferEntries ((keyword, biasType) # entries) element (biases, detectedTypes) =
     (if includesStr element keyword \<and> biasType \<notin> detectedTypes
      then (case find (\<lambda>r. rule_type r = biasType) BIAS_RULES of
              Some rule \<Rightarrow>
                inferEntries entries element
                  (biases @ [\<lparr>bias_type = rule_type rule,
                               bias_typeLabel = rule_typeLabel rule,
                               bias_description = [0x4ECE, 0x8868, 0x8FF0, 0x4E2D, 0x68C0, 0x6D4B, 0x5230, 0xFF1A] @ element,
                               bias_mitigation = rule_mitigation rule\<rparr>],
                   insert biasType detectedTypes)
            | None \<Rightarrow> inferEntries entries element (biases, insert biasType detectedTypes))
      else inferEntries entries element (biases, detectedTypes))"

fun inferElements ::
  "jsstring list \<Rightarrow> CognitiveBias list \<times> BiasType set \<Rightarrow> CognitiveBias list \<times> BiasType set"
where
  "inferElements [] st = st"
| "inferElements (element # elements) st =
     inferElements elements (inferEntries EMOTIONAL_BIAS_MAP element st)"

definition inferBiasesFromEmotions :: "jsstring list \<Rightarrow> CognitiveBias list" where
  "inferBiasesFromEmotions elements = fst (inferElements elements ([], {}))"

text \<open>The merging loop of \<open>analyzeBias\<close>, carrying \<open>allBiases\<close> and \<open>detectedTypes\<close>.\<close>

fun mergeLoop ::
  "CognitiveBias list \<Rightarrow> CognitiveBias list \<times> BiasType set \<Rightarrow> CognitiveBias list \<times> BiasType set"
where
  "mergeLoop [] st = st"
| "mergeLoop (bias # emotionBiases) (allBiases, detectedTypes) =
     (if bias_type bias \<notin> detectedTypes
      then mergeLoop emotionBiases (allBiases @ [bias], insert (bias_type bias) detectedTypes)
      else mergeLoop emotionBiases (allBiases, detectedTypes))"

definition otherBias :: CognitiveBias where
  "otherBias =
     \<lparr>bias_type = Other,
      bias_typeLabel = [0x901A, 0x7528, 0x63D0, 0x9192],
      bias_description = [0x672A, 0x68C0, 0x6D4B, 0x5230, 0x660E, 0x663E, 0x7684, 0x8BA4, 0x77E5, 0x504F, 0x5DEE, 0xFF0C, 0x4F46, 0x8BF7, 0x4FDD, 0x6301, 0x8B66, 0x60D5],
      bias_mitigation = [0x5EFA, 0x8BAE, 0xFF1A, 0x5B9A, 0x671F, 0x53CD, 0x601D, 0x81EA, 0x5DF1, 0x7684, 0x5047, 0x8BBE, 0x548C, 0x63A8, 0x7406, 0x8FC7, 0x7A0B, 0xFF0C, 0x5BFB, 0x6C42, 0x4E0D, 0x540C, 0x89C6, 0x89D2, 0x7684, 0x610F, 0x89C1, 0x3002]\<rparr>"

record BiasWarnings =
  biases :: "CognitiveBias list"

definition analyzeBias :: "ReframedProblem \<Rightarrow> BiasWarnings" where
  "analyzeBias reframedProblem =
     (let textBiases = detectBiasesFromText (original reframedProblem);
          emotionBiases = inferBiasesFromEmotions (emotionalElements reframedProblem);
          allBiases = fst (mergeLoop emotionBiases (textBiases, set (map bias_type textBiases)))
      in \<lparr>biases = (if length allBiases = 0 then allBiases @ [otherBias] else allBiases)\<rparr>)"

section \<open>The pipeline (analyzeDecision)\<close>

record DecisionAnalysis =
  reframedProblem :: ReframedProblem
  variablesAndConstraints :: VariablesAndConstraints
  strategySpace :: StrategySpace
  riskRewardAnalysis :: "RiskRewardAnalysis list"
  biasWarnings :: BiasWarnings

text \<open>The analysis, and the store of \<open>lastIndex\<close> values the call leaves behind.
  \<open>fl\<close> is the rounding of the risk analyzer's arithmetic.\<close>

definition analyzeDecision ::
  "(real \<Rightarrow> real) \<Rightarrow> jsstring \<Rightarrow> lastIndexStore \<Rightarrow> DecisionAnalysis \<times> lastIndexStore" where
  "analyzeDecision fl problemText st =
     (let r = analyzeAndReframe problemText st;
          reframedProblem0 = fst r;
          variablesAndConstraints0 = analyzeVariables reframedProblem0;
          strategySpace0 = generateStrategies reframedProblem0 variablesAndConstraints0;
          riskRewardAnalysis0 = analyzeRisk fl strategySpace0 variablesAndConstraints0;
          biasWarnings0 = analyzeBias reframedProblem0
      in (\<lparr>reframedProblem = reframedProblem0,
           variablesAndConstraints = variablesAndConstraints0,
           strategySpace = strategySpace0,
           riskRewardAnalysis = riskRewardAnalysis0,
           biasWarnings = biasWarnings0\<rparr>, snd r))"

section \<open>The specification's wording, and example inputs\<close>

text \<open>
  The uncertainty adjustment as the specification words it: the level is
  \<open>min(uncertaintyCount/4, 1)\<close>; the buckets at index 1 and 2 lose \<open>5*level\<close>, every
  other bucket gains \<open>2.5*level\<close>, and the result is clamped into \<open>[5,50]\<close>.
\<close>

definition clamp :: "real \<Rightarrow> real \<Rightarrow> real \<Rightarrow> real" where
  "clamp lo hi x = (if x < lo then lo else if hi < x then hi else x)"

definition spec_adjusted :: "nat \<Rightarrow> nat \<Rightarrow> real \<Rightarrow> real" where
  "spec_adjusted uncertaintyCount i p =
     (let level = min (real uncertaintyCount / 4) 1
      in clamp 5 50 (if i = 1 \<or> i = 2 then p - 5 * level else p + 2.5 * level))"



text \<open>Four buckets with the base probabilities of the aggressive template, and a list
  of two uncertainties.\<close>

definition exampleBuckets :: "OutcomeDistribution list" where
  "exampleBuckets =
     [\<lparr>probability = 20, description = ascii ''a''\<rparr>,
      \<lparr>probability = 35, description = ascii ''b''\<rparr>,
      \<lparr>probability = 30, description = ascii ''c''\<rparr>,
      \<lparr>probability = 15, description = ascii ''d''\<rparr>]"

definition twoUncertainties :: "jsstring list" where
  "twoUncertainties = [ascii ''u1'', ascii ''u2'']"

text \<open>A reframed problem none of whose texts holds a keyword or a bias pattern.\<close>

definition plainProblem :: ReframedProblem where
  "plainProblem =
     \<lparr>original = ascii ''xyzxyzxyz'', reframed = ascii ''abc'', emotionalElements = []\<rparr>"

text \<open>
  A reframed problem whose text matches a pattern of the narrative rule and one of the
  group-pressure rule, and whose two emotional elements carry the markers of group
  pressure and of the urgency assumption.
\<close>

definition hearsayProblem :: ReframedProblem where
  "hearsayProblem =
     \<lparr>original = [0x5927, 0x5BB6, 0x90FD, 0x542C, 0x8BF4],
      reframed = ascii ''abc'',
      emotionalElements =
        [[0x7FA4, 0x4F53, 0x538B, 0x529B, 0xFF1A, 0x0027, 0x5927, 0x5BB6, 0x90FD, 0x0027],
         [0x7D27, 0x8FEB, 0x611F, 0x5047, 0x8BBE, 0xFF1A, 0x0027, 0x9519, 0x8FC7, 0x8FD9, 0x4E2A, 0x673A, 0x4F1A, 0x0027]]\<rparr>"

text \<open>The invariant of the two loops of \<open>inferBiasesFromEmotions\<close>: the types of the
  biases pushed so far are among \<open>detectedTypes\<close>, are types of rules, and are pairwise
  different.\<close>

definition inferInv :: "CognitiveBias list \<times> BiasType set \<Rightarrow> bool" where
  "inferInv st = (set (map bias_type (fst st)) \<subseteq> snd st
     \<and> set (map bias_type (fst st)) \<subseteq> set (map rule_type BIAS_RULES)
     \<and> distinct (map bias_type (fst st)))"

text \<open>The sum of the probabilities of an analysis; the distributions of a template at
  an uncertainty level, as \<open>analyzeRisk\<close> computes them; exact arithmetic as an instance of
  \<open>fl\<close>; and the store in which every \<open>lastIndex\<close> is 0, as when the module is loaded.\<close>

definition totalProbability :: "RiskRewardAnalysis \<Rightarrow> real" where
  "totalProbability r = sum_list (map probability (distributions r))"

definition templateAt ::
  "(real \<Rightarrow> real) \<Rightarrow> real \<Rightarrow> DistributionTemplate \<Rightarrow> OutcomeDistribution list" where
  "templateAt fl L t = normalizeProbabilities fl (map (adjustOne L) (enumerate 0
     (map (\<lambda>d. \<lparr>probability = template_probability d, description = template d\<rparr>)
        (template_distributions t))))"

definition exactArithmetic :: "real \<Rightarrow> real" where
  "exactArithmetic x = x"

definition initialStore :: lastIndexStore where
  "initialStore k = 0"

text \<open>
  The reframer as the specification words it: the core theme is the label of the first
  topic group that matches, in the order career, relocation, education, finance,
  relationships, or the generic theme; the reframed string is the template keyed by
  that theme with that theme's label substituted. \<open>templateKeyed theme s\<close> is the template
  of the key \<open>theme\<close> with the string \<open>s\<close> substituted.
\<close>

definition spec_coreTheme :: "jsstring \<Rightarrow> jsstring" where
  "spec_coreTheme text =
     (if regexTest careerPattern text then [0x804C, 0x4E1A, 0x53D1, 0x5C55]
      else if regexTest relocationPattern text then [0x5730, 0x7406, 0x8FC1, 0x79FB]
      else if regexTest educationPattern text then [0x6559, 0x80B2, 0x6295, 0x8D44]
      else if regexTest financePattern text then [0x8D22, 0x52A1, 0x51B3, 0x7B56]
      else if regexTest relationshipPattern text then [0x4EBA, 0x751F, 0x5173, 0x7CFB]
      else [0x4EBA, 0x751F, 0x51B3, 0x7B56])"

definition templateKeyed :: "jsstring \<Rightarrow> jsstring \<Rightarrow> jsstring" where
  "templateKeyed theme s = (case map_of (templates s) theme of Some t \<Rightarrow> t | None \<Rightarrow> [])"

definition spec_reframed :: "jsstring \<Rightarrow> jsstring" where
  "spec_reframed text = templateKeyed (spec_coreTheme text) (spec_coreTheme text)"

text \<open>
  The reframer as the amended claim words it: the five topic groups in the fixed test
  order, each with its label; the collected themes are the labels of all the groups
  whose pattern matches the text, in that order, or the generic theme alone when none
  matches.
\<close>

definition topicGroups :: "(RegExp \<times> jsstring) list" where
  "topicGroups =
     [(careerPattern, [0x804C, 0x4E1A, 0x53D1, 0x5C55]),
      (relocationPattern, [0x5730, 0x7406, 0x8FC1, 0x79FB]),
      (educationPattern, [0x6559, 0x80B2, 0x6295, 0x8D44]),
      (financePattern, [0x8D22, 0x52A1, 0x51B3, 0x7B56]),
      (relationshipPattern, [0x4EBA, 0x751F, 0x5173, 0x7CFB])]"

definition collectedThemes :: "jsstring \<Rightarrow> jsstring list" where
  "collectedThemes text =
     (let matched = map snd (filter (\<lambda>(p, label). regexTest p text) topicGroups)
      in if matched = [] then [[0x4EBA, 0x751F, 0x51B3, 0x7B56]] else matched)"

text \<open>A text that holds a keyword of the career group (U+5DE5 U+4F5C, "work") and one of
  the relocation group (U+51FA U+56FD, "going abroad").\<close>

definition twoThemeText :: jsstring where
  "twoThemeText = [0x5DE5, 0x4F5C, 0x51FA, 0x56FD]"

text \<open>A text for the matcher: "AMAZing", a comma, and a phrase in which U+90FD occurs
  twice after U+8EAB U+8FB9, so that the greedy \<open>.*\<close> has a choice.\<close>

definition greedyText :: jsstring where
  "greedyText = [0x0041, 0x004D, 0x0041, 0x005A, 0x0069, 0x006E, 0x0067, 0xFF0C, 0x8EAB, 0x8FB9, 0x7684, 0x4EBA, 0x90FD, 0x8BF4, 0x90FD]"

section \<open>The strategy space\<close>

text \<open>
  Claim C3. For every reframed problem and every extracted variables,
  \<open>generateStrategies\<close> returns exactly four strategies: in this order, the one of id A
  and type aggressive, the one of id B and type conservative, the one of id C and type
  hedge and the one of id D and type exit. No id and no type occurs twice.
\<close>

theorem generateStrategies_four_in_order:
  "map (\<lambda>s. (strategy_id s, strategy_type s)) (strategies (generateStrategies rp v)) =
     [(ascii ''A'', ascii ''aggressive''), (ascii ''B'', ascii ''conservative''),
      (ascii ''C'', ascii ''hedge''), (ascii ''D'', ascii ''exit'')]
   \<and> length (strategies (generateStrategies rp v)) = 4
   \<and> distinct (map strategy_id (strategies (generateStrategies rp v)))
   \<and> distinct (map strategy_type (strategies (generateStrategies rp v)))"
  by (simp add: generateStrategies_def generateStrategy_def STRATEGY_CONFIGS_def ascii_def)

text \<open>
  Claim C10. The conditional extras of the strategy generator depend on the type. For
  every extracted variables, the aggressive strategy has 4 preconditions when the label
  "capital reserve" (U+8D44 U+91D1 U+50A8 U+5907) is among \<open>keyVariables\<close> and 3
  otherwise, and 3 trigger points; the conservative strategy has 3 preconditions, and 4
  trigger points when the label "policy change" (U+653F U+7B56 U+53D8 U+5316) is among
  \<open>uncertainties\<close> and 3 otherwise; the hedge strategy has 3 and 3; the exit strategy has
  3 preconditions and 4 trigger points.
\<close>

theorem generateStrategies_extras_by_type:
  "map (\<lambda>s. (strategy_type s, length (preconditions s), length (triggerPoints s)))
     (strategies (generateStrategies rp v)) =
   [(ascii ''aggressive'',
       if [0x8D44, 0x91D1, 0x50A8, 0x5907] \<in> set (keyVariables v) then 4 else 3, 3),
    (ascii ''conservative'', 3,
       if [0x653F, 0x7B56, 0x53D8, 0x5316] \<in> set (uncertainties v) then 4 else 3),
    (ascii ''hedge'', 3, 3),
    (ascii ''exit'', 3, 4)]"
  by (simp add: generateStrategies_def generateStrategy_def STRATEGY_CONFIGS_def)

section \<open>The variable extractor\<close>

text \<open>
  Claim C4. For every reframed problem, each of the four lists of \<open>analyzeVariables\<close>
  is non-empty; a dimension with no keyword match is exactly the default list of that
  dimension, and a dimension with a match is exactly the list of matched labels, so
  matched labels and defaults are never mixed.
\<close>

theorem analyzeVariables_nonempty_or_default:
  "goals (analyzeVariables rp) \<noteq> [] \<and> keyVariables (analyzeVariables rp) \<noteq> []
   \<and> hardConstraints (analyzeVariables rp) \<noteq> [] \<and> uncertainties (analyzeVariables rp) \<noteq> []
   \<and> goals (analyzeVariables rp) =
       (if matchKeywords (combinedText rp) GOAL_KEYWORDS = [] then getDefaultGoals
        else matchKeywords (combinedText rp) GOAL_KEYWORDS)
   \<and> keyVariables (analyzeVariables rp) =
       (if matchKeywords (combinedText rp) VARIABLE_KEYWORDS = [] then getDefaultVariables
        else matchKeywords (combinedText rp) VARIABLE_KEYWORDS)
   \<and> hardConstraints (analyzeVariables rp) =
       (if matchKeywords (combinedText rp) CONSTRAINT_KEYWORDS = [] then getDefaultConstraints
        else matchKeywords (combinedText rp) CONSTRAINT_KEYWORDS)
   \<and> uncertainties (analyzeVariables rp) =
       (if matchKeywords (combinedText rp) UNCERTAINTY_KEYWORDS = [] then getDefaultUncertainties
        else matchKeywords (combinedText rp) UNCERTAINTY_KEYWORDS)"
  by (simp add: analyzeVariables_def Let_def getDefaultGoals_def getDefaultVariables_def
        getDefaultConstraints_def getDefaultUncertainties_def)

section \<open>The risk analyzer\<close>

text \<open>
  Claim C5. For every list of buckets and every list of uncertainties,
  \<open>adjustForUncertainties\<close> keeps the length of the list, and the bucket at index \<open>i\<close> is
  the input bucket with its probability replaced by the specification's adjustment
  (\<open>spec_adjusted\<close>: minus \<open>5*level\<close> at index 1 and 2, plus \<open>2.5*level\<close> elsewhere, clamped),
  which lies in \<open>[5,50]\<close>.
\<close>

theorem adjustForUncertainties_spec:
  "length (adjustForUncertainties ds us) = length ds
   \<and> (\<forall>i < length ds.
        adjustForUncertainties ds us ! i =
          (ds ! i)\<lparr>probability := spec_adjusted (length us) i (probability (ds ! i))\<rparr>
        \<and> 5 \<le> probability (adjustForUncertainties ds us ! i)
        \<and> probability (adjustForUncertainties ds us ! i) \<le> 50)"
  by (simp add: adjustForUncertainties_def adjustOne_def uncertaintyLevel_def spec_adjusted_def
        clamp_def nth_enumerate_eq Let_def)

theorem adjustForUncertainties_spec_witness:
  "1 < length exampleBuckets
   \<and> adjustForUncertainties exampleBuckets twoUncertainties ! 1 =
       \<lparr>probability = 65 / 2, description = ascii ''b''\<rparr>"
proof -
  have len: "1 < length exampleBuckets" by (simp add: exampleBuckets_def)
  have "adjustForUncertainties exampleBuckets twoUncertainties ! 1 =
          (exampleBuckets ! 1)\<lparr>probability :=
             spec_adjusted (length twoUncertainties) 1 (probability (exampleBuckets ! 1))\<rparr>"
    using adjustForUncertainties_spec [of exampleBuckets twoUncertainties] len by blast
  then show ?thesis
    using len by (simp add: exampleBuckets_def twoUncertainties_def spec_adjusted_def clamp_def)
qed

lemma round_robust:
  assumes R: "roundsLikeDouble fl" and q1: "1 / 100 \<le> q" and q2: "q \<le> 1"
    and m: "\<bar>q * 100 - of_int k\<bar> \<le> 49 / 100"
  shows "mathRound (fl (fl q * 100)) = of_int k"
proof -
  define e :: real where "e = 1 / 2 ^ 53"
  have e0: "0 < e" and e1: "300 * e < 1 / 100" and e2: "e \<le> 1 / 2"
    unfolding e_def by simp_all
  have R': "\<bar>fl x - x\<bar> \<le> x * e" if "1 / 1000 \<le> x" and "x \<le> 1000" for x
    using R that unfolding roundsLikeDouble_def e_def by simp
  have a: "\<bar>fl q - q\<bar> \<le> q * e"
    by (rule R') (use q1 q2 in linarith)+
  have qe: "q * e \<le> 1 * e"
    by (rule mult_right_mono) (use q2 e0 in simp_all)
  have qh: "q * e \<le> q * (1 / 2)"
    by (rule mult_left_mono) (use q1 e2 in simp_all)
  have lo: "1 / 200 \<le> fl q" using a qh q1 by linarith
  have hi: "fl q \<le> 2" using a qe q2 e2 by linarith
  define y where "y = fl q * 100"
  have y1: "1 / 1000 \<le> y" and y2: "y \<le> 200" using lo hi unfolding y_def by linarith+
  have b: "\<bar>fl y - y\<bar> \<le> y * e"
    by (rule R') (use y1 y2 in linarith)+
  have ye: "y * e \<le> 200 * e"
    by (rule mult_right_mono) (use y2 e0 in simp_all)
  have d: "\<bar>fl q - q\<bar> \<le> e" using a qe by simp
  have "y - q * 100 = (fl q - q) * 100" unfolding y_def by (simp add: algebra_simps)
  then have "\<bar>y - q * 100\<bar> = \<bar>fl q - q\<bar> * 100" by (simp only: abs_mult abs_numeral)
  then have c: "\<bar>y - q * 100\<bar> \<le> 100 * e" using d by simp
  have "\<bar>fl y - q * 100\<bar> \<le> 300 * e" using b ye c by linarith
  then have "\<bar>fl y - q * 100\<bar> < 1 / 100" using e1 by linarith
  then have "of_int k \<le> fl y + 1 / 2" and "fl y + 1 / 2 < of_int k + 1"
    using m by linarith+
  then have "\<lfloor>fl y + 1 / 2\<rfloor> = k" by (simp add: floor_unique)
  then show ?thesis unfolding mathRound_def y_def by simp
qed

lemma round_robust_simp:
  "roundsLikeDouble fl \<Longrightarrow> 1 / 100 \<le> q \<Longrightarrow> q \<le> 1 \<Longrightarrow>
   \<bar>q * 100 - of_int \<lfloor>q * 100 + 1 / 2\<rfloor>\<bar> \<le> 49 / 100 \<Longrightarrow>
   mathRound (fl (fl q * 100)) = of_int \<lfloor>q * 100 + 1 / 2\<rfloor>"
  by (rule round_robust)

lemmas risk_eval = templateAt_def DISTRIBUTION_TEMPLATES_def normalizeProbabilities_def
  adjustOne_def round_robust_simp

lemma level_0: "roundsLikeDouble fl \<Longrightarrow>
   map (\<lambda>t. map probability (templateAt fl 0 t)) DISTRIBUTION_TEMPLATES =
   [[20, 35, 30, 15], [25, 30, 25, 20], [20, 35, 30, 15], [30, 35, 20, 15]]"
  by (simp add: risk_eval)

lemma level_1: "roundsLikeDouble fl \<Longrightarrow>
   map (\<lambda>t. map probability (templateAt fl (1/4) t)) DISTRIBUTION_TEMPLATES =
   [[21, 34, 29, 16], [26, 29, 24, 21], [21, 34, 29, 16], [31, 34, 19, 16]]"
  by (simp add: risk_eval)


lemma level_2: "roundsLikeDouble fl \<Longrightarrow>
   map (\<lambda>t. map probability (templateAt fl (1/2) t)) DISTRIBUTION_TEMPLATES =
   [[22, 33, 28, 17], [27, 28, 23, 22], [22, 33, 28, 17], [32, 33, 18, 17]]"
  by (simp add: risk_eval)

lemma level_3: "roundsLikeDouble fl \<Longrightarrow>
   map (\<lambda>t. map probability (templateAt fl (3/4) t)) DISTRIBUTION_TEMPLATES =
   [[23, 32, 27, 18], [28, 27, 22, 23], [23, 32, 27, 18], [33, 32, 17, 18]]"
  by (simp add: risk_eval)

lemma level_4: "roundsLikeDouble fl \<Longrightarrow>
   map (\<lambda>t. map probability (templateAt fl 1 t)) DISTRIBUTION_TEMPLATES =
   [[24, 32, 26, 18], [29, 26, 21, 24], [24, 32, 26, 18], [34, 32, 16, 18]]"
  by (simp add: risk_eval)

lemma uncertaintyLevel_cases:
  "uncertaintyLevel us \<in> {0, 1/4, 1/2, 3/4, 1}"
proof -
  have "length us = 0 \<or> length us = 1 \<or> length us = 2 \<or> length us = 3 \<or> 4 \<le> length us"
    by arith
  then show ?thesis
    by (auto simp: uncertaintyLevel_def min_def)
qed

lemma template_total:
  assumes R: "roundsLikeDouble fl" and mem: "t \<in> set DISTRIBUTION_TEMPLATES"
  shows "sum_list (map probability (templateAt fl (uncertaintyLevel us) t)) = 100"
proof -
  have all: "map (\<lambda>t. sum_list (map probability (templateAt fl (uncertaintyLevel us) t)))
               DISTRIBUTION_TEMPLATES = [100, 100, 100, 100]"
  proof -
    have eq: "map (\<lambda>t. sum_list (map probability (templateAt fl L t))) DISTRIBUTION_TEMPLATES =
          map sum_list (map (\<lambda>t. map probability (templateAt fl L t)) DISTRIBUTION_TEMPLATES)"
      for L by (simp add: comp_def)
    consider "uncertaintyLevel us = 0" | "uncertaintyLevel us = 1/4"
      | "uncertaintyLevel us = 1/2" | "uncertaintyLevel us = 3/4" | "uncertaintyLevel us = 1"
      using uncertaintyLevel_cases [of us] by auto
    then show ?thesis
    proof cases
      case 1 then show ?thesis by (simp only: eq level_0 [OF R]) simp
    next
      case 2 then show ?thesis by (simp only: eq level_1 [OF R]) simp
    next
      case 3 then show ?thesis by (simp only: eq level_2 [OF R]) simp
    next
      case 4 then show ?thesis by (simp only: eq level_3 [OF R]) simp
    next
      case 5 then show ?thesis by (simp only: eq level_4 [OF R]) simp
    qed
  qed
  have "sum_list (map probability (templateAt fl (uncertaintyLevel us) t))
          \<in> set (map (\<lambda>t. sum_list (map probability (templateAt fl (uncertaintyLevel us) t)))
                 DISTRIBUTION_TEMPLATES)"
    using mem by (simp only: set_map) (rule imageI)
  then show ?thesis unfolding all by simp
qed

text \<open>Every analysis of \<open>analyzeRisk\<close> sums to 100, whatever the strategies and the
  variables: the generic buckets do, and so does every template at every level.\<close>

lemma analyzeStrategyRisk_total:
  assumes R: "roundsLikeDouble fl"
  shows "totalProbability (analyzeStrategyRisk fl v s) = 100"
proof (cases "findTemplate s")
  case None
  then show ?thesis
    by (simp add: analyzeStrategyRisk_def defaultDistributions_def totalProbability_def)
next
  case (Some t)
  then have mem: "t \<in> set DISTRIBUTION_TEMPLATES"
    unfolding findTemplate_def by (auto simp: find_Some_iff)
  have "distributions (analyzeStrategyRisk fl v s) =
          templateAt fl (uncertaintyLevel (uncertainties v)) t"
    using Some by (simp add: analyzeStrategyRisk_def templateAt_def adjustForUncertainties_def)
  then show ?thesis
    using template_total [OF R mem, of "uncertainties v"] by (simp add: totalProbability_def)
qed

lemma analyzeRisk_total:
  "roundsLikeDouble fl \<Longrightarrow>
   list_all (\<lambda>r. totalProbability r = 100) (analyzeRisk fl strategySpace0 v)"
  by (simp add: analyzeRisk_def list_all_iff analyzeStrategyRisk_total)

text \<open>
  Claim C1. For every problem text (and every state of the expression objects), each of
  the four risk analyses of the pipeline's output has probabilities that sum to exactly
  100, after the uncertainty adjustment and the normalization \<open>round(p / sum * 100)\<close> of
  each bucket, the quotient and the product being rounded as doubles are.
\<close>

theorem pipeline_probabilities_sum_to_100:
  assumes "roundsLikeDouble fl"
  shows "list_all (\<lambda>r. totalProbability r = 100)
           (riskRewardAnalysis (fst (analyzeDecision fl problemText st)))
         \<and> length (riskRewardAnalysis (fst (analyzeDecision fl problemText st))) = 4"
  using assms
  by (simp add: analyzeDecision_def Let_def analyzeRisk_total)
     (simp add: analyzeRisk_def generateStrategies_def STRATEGY_CONFIGS_def)

theorem pipeline_probabilities_sum_to_100_witness:
  "roundsLikeDouble exactArithmetic
   \<and> list_all (\<lambda>r. totalProbability r = 100)
        (riskRewardAnalysis (fst (analyzeDecision exactArithmetic (ascii ''xyzxyzxyz'') initialStore)))
   \<and> length (riskRewardAnalysis
        (fst (analyzeDecision exactArithmetic (ascii ''xyzxyzxyz'') initialStore))) = 4"
proof -
  have R: "roundsLikeDouble exactArithmetic"
    by (simp add: roundsLikeDouble_def exactArithmetic_def)
  from pipeline_probabilities_sum_to_100 [OF R, of "ascii ''xyzxyzxyz''" initialStore] R
  show ?thesis by simp
qed



section \<open>The bias detector\<close>

lemmas regex_eval = regexTest_def RegExpBuiltinExec_def regex_def regex_g_def regex_gi_def
  canonicalize_def isLineTerminator_def ascii_def

lemma anyPattern_iff: "anyPattern ps text = (\<exists>p \<in> set ps. regexTest p text)"
  by (induction ps) auto

lemma detectLoop_filter:
  "distinct (map rule_type rules) \<Longrightarrow> set (map rule_type rules) \<inter> D = {} \<Longrightarrow>
   fst (detectLoop rules text (bs, D)) =
     bs @ map ruleBias (filter (\<lambda>r. anyPattern (patterns r) text) rules)"
proof (induction rules arbitrary: bs D)
  case Nil
  then show ?case by simp
next
  case (Cons r rules)
  have notin: "rule_type r \<notin> D" using Cons.prems by auto
  have d: "distinct (map rule_type rules)" using Cons.prems by simp
  have disj1: "set (map rule_type rules) \<inter> D = {}" using Cons.prems by auto
  have disj2: "set (map rule_type rules) \<inter> insert (rule_type r) D = {}"
    using Cons.prems by auto
  show ?case
    using notin Cons.IH [OF d disj1] Cons.IH [OF d disj2] by simp
qed

lemma BIAS_RULES_types:
  "map rule_type BIAS_RULES =
     [Survivorship, Narrative, GroupPressure, ShortTermFocus, ConfirmationBias,
      AnchoringBias, SunkCostFallacy]"
  by (simp add: BIAS_RULES_def)

lemma detectBiasesFromText_filter:
  "detectBiasesFromText text =
     map ruleBias (filter (\<lambda>r. anyPattern (patterns r) text) BIAS_RULES)"
proof -
  have "distinct (map rule_type BIAS_RULES)" by (simp add: BIAS_RULES_types)
  then show ?thesis
    unfolding detectBiasesFromText_def using detectLoop_filter [of BIAS_RULES "{}" "text" "[]"]
    by simp
qed

lemma bias_type_ruleBias: "map bias_type (map ruleBias rs) = map rule_type rs"
  by (simp add: ruleBias_def)

lemma detect_types_distinct: "distinct (map bias_type (detectBiasesFromText text))"
proof -
  have "distinct (map rule_type (filter (\<lambda>r. anyPattern (patterns r) text) BIAS_RULES))"
    by (rule distinct_map_filter) (simp add: BIAS_RULES_types)
  then show ?thesis by (simp only: detectBiasesFromText_filter bias_type_ruleBias)
qed

lemma detect_types_rules:
  "set (map bias_type (detectBiasesFromText text)) \<subseteq> set (map rule_type BIAS_RULES)"
  by (auto simp: detectBiasesFromText_filter ruleBias_def)

lemma inferEntries_inv: "inferInv st \<Longrightarrow> inferInv (inferEntries entries element st)"
proof (induction entries arbitrary: st)
  case Nil
  then show ?case by simp
next
  case (Cons entry entries)
  obtain keyword biasType where entry: "entry = (keyword, biasType)" by (cases entry)
  obtain bs D where st: "st = (bs, D)" by (cases st)
  show ?case
  proof (cases "includesStr element keyword \<and> biasType \<notin> D")
    case False
    then show ?thesis using Cons entry st by auto
  next
    case True
    show ?thesis
    proof (cases "find (\<lambda>r. rule_type r = biasType) BIAS_RULES")
      case None
      have "inferInv (bs, insert biasType D)"
        using Cons.prems st by (auto simp: inferInv_def)
      from Cons.IH [OF this] show ?thesis using True None entry st by simp
    next
      case (Some rule)
      then have rt: "rule_type rule = biasType" and mem: "rule \<in> set BIAS_RULES"
        by (auto simp: find_Some_iff in_set_conv_nth)
      have "inferInv (bs @ [\<lparr>bias_type = rule_type rule,
                               bias_typeLabel = rule_typeLabel rule,
                               bias_description = d,
                               bias_mitigation = rule_mitigation rule\<rparr>],
                   insert biasType D)" for d
        using Cons.prems st True rt mem by (auto simp: inferInv_def)
      from Cons.IH [OF this] show ?thesis using True Some entry st by simp
    qed
  qed
qed

lemma inferElements_inv: "inferInv st \<Longrightarrow> inferInv (inferElements elements st)"
  by (induction elements arbitrary: st) (simp_all add: inferEntries_inv)

lemma infer_types_distinct: "distinct (map bias_type (inferBiasesFromEmotions elements))"
  using inferElements_inv [of "([], {})" elements]
  by (simp add: inferInv_def inferBiasesFromEmotions_def)

lemma infer_types_rules:
  "set (map bias_type (inferBiasesFromEmotions elements)) \<subseteq> set (map rule_type BIAS_RULES)"
  using inferElements_inv [of "([], {})" elements]
  by (simp add: inferInv_def inferBiasesFromEmotions_def)

lemma mergeLoop_filter:
  "distinct (map bias_type es) \<Longrightarrow>
   fst (mergeLoop es (bs, D)) = bs @ filter (\<lambda>b. bias_type b \<notin> D) es"
proof (induction es arbitrary: bs D)
  case Nil
  then show ?case by simp
next
  case (Cons e es)
  have d: "distinct (map bias_type es)" using Cons.prems by simp
  have "bias_type e \<notin> bias_type ` set es" using Cons.prems by simp
  then have fresh: "\<forall>b \<in> set es. bias_type b \<noteq> bias_type e" by (metis imageI)
  then have same: "filter (\<lambda>b. bias_type b \<notin> insert (bias_type e) D) es =
                   filter (\<lambda>b. bias_type b \<notin> D) es"
    by (intro filter_cong) auto
  show ?case using Cons.IH [OF d] same by simp
qed

lemma merged_eq:
  "fst (mergeLoop (inferBiasesFromEmotions els)
         (detectBiasesFromText text, set (map bias_type (detectBiasesFromText text)))) =
   detectBiasesFromText text @
     filter (\<lambda>b. bias_type b \<notin> set (map bias_type (detectBiasesFromText text)))
       (inferBiasesFromEmotions els)"
  by (rule mergeLoop_filter) (rule infer_types_distinct)

lemma distinct_append_filter:
  assumes "distinct (map f xs)" and "distinct (map f ys)"
  shows "distinct (map f (xs @ filter (\<lambda>y. f y \<notin> set (map f xs)) ys))"
proof -
  have "f ` set xs \<inter> f ` set (filter (\<lambda>y. f y \<notin> f ` set xs) ys) = {}"
  proof (rule equals0I)
    fix v assume "v \<in> f ` set xs \<inter> f ` set (filter (\<lambda>y. f y \<notin> f ` set xs) ys)"
    then have a: "v \<in> f ` set xs" and b: "v \<in> f ` {y \<in> set ys. f y \<notin> f ` set xs}"
      by simp_all
    from b obtain y where "v = f y" and "f y \<notin> f ` set xs" by blast
    with a have False by simp
    then show False by simp
  qed
  then show ?thesis using assms by (simp add: distinct_map_filter)
qed

lemma merged_distinct:
  "distinct (map bias_type (detectBiasesFromText text @
     filter (\<lambda>b. bias_type b \<notin> set (map bias_type (detectBiasesFromText text)))
       (inferBiasesFromEmotions els)))"
  by (rule distinct_append_filter [OF detect_types_distinct infer_types_distinct])

lemma analyzeBias_merged:
  "biases (analyzeBias rp) =
     (let tb = detectBiasesFromText (original rp);
          eb = filter (\<lambda>b. bias_type b \<notin> set (map bias_type tb))
                 (inferBiasesFromEmotions (emotionalElements rp))
      in if tb @ eb = [] then [otherBias] else tb @ eb)"
proof -
  define m where "m = detectBiasesFromText (original rp) @
     filter (\<lambda>b. bias_type b \<notin> set (map bias_type (detectBiasesFromText (original rp))))
       (inferBiasesFromEmotions (emotionalElements rp))"
  have "fst (mergeLoop (inferBiasesFromEmotions (emotionalElements rp))
         (detectBiasesFromText (original rp),
          set (map bias_type (detectBiasesFromText (original rp))))) = m"
    unfolding m_def by (rule merged_eq)
  then have "biases (analyzeBias rp) = (if length m = 0 then m @ [otherBias] else m)"
    unfolding analyzeBias_def Let_def by (simp only: BiasWarnings.simps)
  then have "biases (analyzeBias rp) = (if m = [] then [otherBias] else m)"
    by (cases "m = []") simp_all
  then show ?thesis unfolding m_def Let_def .
qed

lemma merged_not_other:
  "Other \<notin> set (map bias_type (detectBiasesFromText text @
     filter (\<lambda>b. bias_type b \<notin> set (map bias_type (detectBiasesFromText text)))
       (inferBiasesFromEmotions els)))"
proof -
  have "Other \<notin> set (map rule_type BIAS_RULES)" by (simp add: BIAS_RULES_types)
  then show ?thesis
    using detect_types_rules [of "text"] infer_types_rules [of els] by auto
qed

text \<open>
  Claim C7. For every reframed problem, no two entries of the list of \<open>analyzeBias\<close>
  have the same type. The biases detected in the text are those of the rules that have
  a matching pattern, in the order of the rule table; the list is these, followed by
  the biases inferred from the emotional elements whose type was not detected in the
  text, in the order they were inferred (or the one fallback entry when both are empty).
\<close>

theorem analyzeBias_unique_and_ordered:
  "distinct (map bias_type (biases (analyzeBias rp)))
   \<and> detectBiasesFromText (original rp) =
       map ruleBias (filter (\<lambda>r. anyPattern (patterns r) (original rp)) BIAS_RULES)
   \<and> biases (analyzeBias rp) =
       (let tb = detectBiasesFromText (original rp);
            eb = filter (\<lambda>b. bias_type b \<notin> set (map bias_type tb))
                   (inferBiasesFromEmotions (emotionalElements rp))
        in if tb @ eb = [] then [otherBias] else tb @ eb)"
proof -
  have "distinct (map bias_type (biases (analyzeBias rp)))"
    using merged_distinct [of "original rp" "emotionalElements rp"]
    by (simp add: analyzeBias_merged Let_def del: set_map)
  then show ?thesis
    using detectBiasesFromText_filter [of "original rp"] analyzeBias_merged [of rp] by simp
qed

theorem analyzeBias_unique_and_ordered_witness:
  "map bias_type (detectBiasesFromText (original hearsayProblem)) = [Narrative, GroupPressure]
   \<and> map bias_type (inferBiasesFromEmotions (emotionalElements hearsayProblem)) =
       [GroupPressure, ShortTermFocus]
   \<and> map bias_type (biases (analyzeBias hearsayProblem)) =
       [Narrative, GroupPressure, ShortTermFocus]"
proof -
  define tb where "tb = detectBiasesFromText (original hearsayProblem)"
  define ib where "ib = inferBiasesFromEmotions (emotionalElements hearsayProblem)"
  have tb: "map bias_type tb = [Narrative, GroupPressure]"
    unfolding tb_def
    by (simp add: hearsayProblem_def detectBiasesFromText_def BIAS_RULES_def regex_eval
          ruleBias_def)
  have ib: "map bias_type ib = [GroupPressure, ShortTermFocus]"
    unfolding ib_def
    by (simp add: hearsayProblem_def inferBiasesFromEmotions_def EMOTIONAL_BIAS_MAP_def
          BIAS_RULES_def)
  have "biases (analyzeBias hearsayProblem) =
          (if tb @ filter (\<lambda>b. bias_type b \<notin> set (map bias_type tb)) ib = []
           then [otherBias] else tb @ filter (\<lambda>b. bias_type b \<notin> set (map bias_type tb)) ib)"
    using analyzeBias_unique_and_ordered [of hearsayProblem]
    unfolding tb_def ib_def Let_def by blast
  moreover have "tb \<noteq> []" using tb by auto
  ultimately have "biases (analyzeBias hearsayProblem) =
      tb @ filter (\<lambda>b. bias_type b \<notin> set (map bias_type tb)) ib"
    by simp
  moreover have "map bias_type (filter (\<lambda>b. bias_type b \<notin> set (map bias_type tb)) ib) =
      filter (\<lambda>t. t \<notin> set (map bias_type tb)) (map bias_type ib)"
    by (simp add: filter_map comp_def)
  ultimately have "map bias_type (biases (analyzeBias hearsayProblem)) =
      map bias_type tb @ filter (\<lambda>t. t \<notin> set (map bias_type tb)) (map bias_type ib)"
    by (simp only: map_append)
  then have "map bias_type (biases (analyzeBias hearsayProblem)) =
      [Narrative, GroupPressure, ShortTermFocus]"
    unfolding tb ib by simp
  with tb ib show ?thesis unfolding tb_def ib_def by simp
qed

text \<open>
  Claim C8. For every reframed problem whose original text matches no pattern of any
  bias rule and whose emotional elements yield no inferred bias, \<open>analyzeBias\<close> returns
  exactly one entry, the fallback of type \<open>Other\<close>. Whenever a pattern matches or a bias
  is inferred, no entry of the result has the type \<open>Other\<close>.
\<close>

theorem analyzeBias_fallback_only_when_empty:
  "((\<forall>r \<in> set BIAS_RULES. \<forall>p \<in> set (patterns r). \<not> regexTest p (original rp))
      \<and> inferBiasesFromEmotions (emotionalElements rp) = []
     \<longrightarrow> biases (analyzeBias rp) = [otherBias])
   \<and> bias_type otherBias = Other
   \<and> ((\<exists>r \<in> set BIAS_RULES. \<exists>p \<in> set (patterns r). regexTest p (original rp))
      \<or> inferBiasesFromEmotions (emotionalElements rp) \<noteq> []
     \<longrightarrow> biases (analyzeBias rp) \<noteq> []
         \<and> list_all (\<lambda>b. bias_type b \<noteq> Other) (biases (analyzeBias rp)))"
proof -
  define tb where "tb = detectBiasesFromText (original rp)"
  define ib where "ib = inferBiasesFromEmotions (emotionalElements rp)"
  define eb where "eb = filter (\<lambda>b. bias_type b \<notin> set (map bias_type tb)) ib"
  have merged: "biases (analyzeBias rp) = (if tb @ eb = [] then [otherBias] else tb @ eb)"
    using analyzeBias_merged [of rp] unfolding Let_def tb_def ib_def eb_def .
  have no_other: "Other \<notin> set (map bias_type (tb @ eb))"
    unfolding tb_def ib_def eb_def by (rule merged_not_other)
  have none: "tb = []"
    if "\<forall>r \<in> set BIAS_RULES. \<forall>p \<in> set (patterns r). \<not> regexTest p (original rp)"
    unfolding tb_def using that by (simp add: detectBiasesFromText_filter anyPattern_iff)
  have some: "tb \<noteq> []"
    if "\<exists>r \<in> set BIAS_RULES. \<exists>p \<in> set (patterns r). regexTest p (original rp)"
  proof -
    from that obtain r where "r \<in> set BIAS_RULES" and "anyPattern (patterns r) (original rp)"
      unfolding anyPattern_iff by blast
    then have "filter (\<lambda>r. anyPattern (patterns r) (original rp)) BIAS_RULES \<noteq> []"
      unfolding filter_empty_conv by blast
    then show ?thesis unfolding tb_def detectBiasesFromText_filter by simp
  qed
  have eb_nil: "eb = ib" if "tb = []"
    unfolding eb_def using that by simp
  have first: "biases (analyzeBias rp) = [otherBias]"
    if "\<forall>r \<in> set BIAS_RULES. \<forall>p \<in> set (patterns r). \<not> regexTest p (original rp)"
      and "ib = []"
    using merged none [OF that(1)] eb_nil that(2) by simp
  have nonempty: "tb @ eb \<noteq> []"
    if "(\<exists>r \<in> set BIAS_RULES. \<exists>p \<in> set (patterns r). regexTest p (original rp)) \<or> ib \<noteq> []"
  proof (cases "tb = []")
    case True
    then have "ib \<noteq> []" using that some by blast
    then show ?thesis using True eb_nil by simp
  next
    case False
    then show ?thesis by simp
  qed
  have second: "biases (analyzeBias rp) \<noteq> []
      \<and> list_all (\<lambda>b. bias_type b \<noteq> Other) (biases (analyzeBias rp))"
    if "(\<exists>r \<in> set BIAS_RULES. \<exists>p \<in> set (patterns r). regexTest p (original rp)) \<or> ib \<noteq> []"
  proof -
    have eq: "biases (analyzeBias rp) = tb @ eb"
      using nonempty [OF that] merged by simp
    have "list_all (\<lambda>b. bias_type b \<noteq> Other) (tb @ eb)"
      using no_other by (simp only: list_all_iff set_map) (metis imageI)
    then show ?thesis using eq nonempty [OF that] by simp
  qed
  have "bias_type otherBias = Other" by (simp add: otherBias_def)
  then show ?thesis using first second unfolding ib_def by blast
qed

theorem analyzeBias_fallback_only_when_empty_witness:
  "biases (analyzeBias plainProblem) = [otherBias]
   \<and> regexTest (patterns (BIAS_RULES ! 1) ! 0) (original hearsayProblem)
   \<and> biases (analyzeBias hearsayProblem) \<noteq> []
   \<and> list_all (\<lambda>b. bias_type b \<noteq> Other) (biases (analyzeBias hearsayProblem))"
proof -
  have nomatch: "\<forall>r \<in> set BIAS_RULES. \<forall>p \<in> set (patterns r).
                   \<not> regexTest p (original plainProblem)"
    by (simp add: plainProblem_def BIAS_RULES_def regex_eval)
  have noinfer: "inferBiasesFromEmotions (emotionalElements plainProblem) = []"
    by (simp add: plainProblem_def inferBiasesFromEmotions_def)
  have one: "biases (analyzeBias plainProblem) = [otherBias]"
    using analyzeBias_fallback_only_when_empty [of plainProblem] nomatch noinfer by blast
  have hit: "regexTest (patterns (BIAS_RULES ! 1) ! 0) (original hearsayProblem)"
    by (simp add: hearsayProblem_def BIAS_RULES_def regex_eval)
  have "patterns (BIAS_RULES ! 1) ! 0 \<in> set (patterns (BIAS_RULES ! 1))"
    and "BIAS_RULES ! 1 \<in> set BIAS_RULES"
    by (simp_all add: BIAS_RULES_def)
  with hit have "\<exists>r \<in> set BIAS_RULES. \<exists>p \<in> set (patterns r).
                   regexTest p (original hearsayProblem)"
    by blast
  then have "biases (analyzeBias hearsayProblem) \<noteq> []
      \<and> list_all (\<lambda>b. bias_type b \<noteq> Other) (biases (analyzeBias hearsayProblem))"
    using analyzeBias_fallback_only_when_empty [of hearsayProblem] by blast
  with one hit show ?thesis by simp
qed

section \<open>The reframer\<close>

lemmas reframe_eval = extractCoreThemes_def careerPattern_def relocationPattern_def
  educationPattern_def financePattern_def relationshipPattern_def regex_eval

lemma hd_themes: "extractCoreThemes text = spec_coreTheme text # tl (extractCoreThemes text)"
  by (simp add: extractCoreThemes_def spec_coreTheme_def)

lemma reframed_keyed:
  "generateReframedQuestion text (spec_coreTheme text # rest) =
     templateKeyed (spec_coreTheme text) (join [0x4E0E] (spec_coreTheme text # rest))"
  by (simp add: generateReframedQuestion_def spec_coreTheme_def templateKeyed_def
       lookupTemplate_def templates_def Let_def)


text \<open>The matcher at work: the \<open>i\<close> flag accepts "AMAZing", and \<open>.*\<close> runs to the last
  U+90FD of the line. The elements are the same from every store.\<close>

lemma identifyEmotionalElements_example:
  "fst (identifyEmotionalElements greedyText st) =
     [[0x8FC7, 0x5EA6, 0x5174, 0x594B, 0xFF1A, 0x0027, 0x0041, 0x004D, 0x0041, 0x005A, 0x0069, 0x006E, 0x0067, 0x0027],
      [0x7FA4, 0x4F53, 0x538B, 0x529B, 0xFF1A, 0x0027, 0x8EAB, 0x8FB9, 0x7684, 0x4EBA, 0x90FD, 0x8BF4, 0x90FD, 0x0027]]"
  by (simp add: identifyEmotionalElements_def greedyText_def EMOTIONAL_PATTERNS_def
        STANCE_PATTERNS_def stringMatch_def regex_eval Let_def)

text \<open>
  Claim C6, as stated, fails. On the text U+5DE5 U+4F5C U+51FA U+56FD ("work", "going
  abroad") two topic groups match; the reframed string is the career template with the
  two labels joined by U+4E0E ("and") substituted, and not with the career label alone
  as the specification has it.
\<close>

theorem reframed_single_theme_counterexample:
  "extractCoreThemes twoThemeText = [[0x804C, 0x4E1A, 0x53D1, 0x5C55], [0x5730, 0x7406, 0x8FC1, 0x79FB]]
   \<and> reframed (fst (analyzeAndReframe twoThemeText initialStore)) =
       templateKeyed [0x804C, 0x4E1A, 0x53D1, 0x5C55] ([0x804C, 0x4E1A, 0x53D1, 0x5C55] @ [0x4E0E] @ [0x5730, 0x7406, 0x8FC1, 0x79FB])
   \<and> spec_reframed twoThemeText = templateKeyed [0x804C, 0x4E1A, 0x53D1, 0x5C55] [0x804C, 0x4E1A, 0x53D1, 0x5C55]
   \<and> reframed (fst (analyzeAndReframe twoThemeText initialStore)) \<noteq> spec_reframed twoThemeText"
proof -
  have themes: "extractCoreThemes twoThemeText = [[0x804C, 0x4E1A, 0x53D1, 0x5C55], [0x5730, 0x7406, 0x8FC1, 0x79FB]]"
    by (simp add: twoThemeText_def reframe_eval)
  have core: "spec_coreTheme twoThemeText = [0x804C, 0x4E1A, 0x53D1, 0x5C55]"
    using hd_themes [of twoThemeText] themes by simp
  have code: "reframed (fst (analyzeAndReframe twoThemeText initialStore)) =
       templateKeyed [0x804C, 0x4E1A, 0x53D1, 0x5C55] ([0x804C, 0x4E1A, 0x53D1, 0x5C55] @ [0x4E0E] @ [0x5730, 0x7406, 0x8FC1, 0x79FB])"
    using reframed_keyed [of twoThemeText "[[0x5730, 0x7406, 0x8FC1, 0x79FB]]"]
    by (simp add: analyzeAndReframe_def Let_def themes core)
  have spec: "spec_reframed twoThemeText = templateKeyed [0x804C, 0x4E1A, 0x53D1, 0x5C55] [0x804C, 0x4E1A, 0x53D1, 0x5C55]"
    by (simp add: spec_reframed_def core)
  have "templateKeyed [0x804C, 0x4E1A, 0x53D1, 0x5C55] ([0x804C, 0x4E1A, 0x53D1, 0x5C55] @ [0x4E0E] @ [0x5730, 0x7406, 0x8FC1, 0x79FB]) \<noteq> templateKeyed [0x804C, 0x4E1A, 0x53D1, 0x5C55] [0x804C, 0x4E1A, 0x53D1, 0x5C55]"
    by (simp add: templateKeyed_def templates_def)
  with themes code spec show ?thesis by simp
qed

lemma extractCoreThemes_collected: "extractCoreThemes text = collectedThemes text"
  by (simp add: extractCoreThemes_def collectedThemes_def topicGroups_def)

text \<open>
  Claim C6, amended. For every text, \<open>extractCoreThemes\<close> collects the labels of all the
  topic groups whose pattern matches, in the fixed order career, relocation, education,
  finance, relationships, or the generic theme alone when none matches
  (\<open>collectedThemes\<close>); its first element is the label of the first group that matches
  (the specification's core theme). The reframed string is the template keyed by that
  first theme, with all the collected labels, joined by U+4E0E, substituted. When exactly
  one theme is collected, this is the specification's reframed string.
\<close>

theorem reframed_keyed_by_first_theme:
  "extractCoreThemes text = collectedThemes text
   \<and> reframed (fst (analyzeAndReframe text st)) =
       templateKeyed (hd (collectedThemes text)) (join [0x4E0E] (collectedThemes text))
   \<and> reframed (fst (analyzeAndReframe text st)) =
       templateKeyed (spec_coreTheme text) (join [0x4E0E] (extractCoreThemes text))
   \<and> hd (extractCoreThemes text) = spec_coreTheme text
   \<and> (length (extractCoreThemes text) = 1 \<longrightarrow>
        reframed (fst (analyzeAndReframe text st)) = spec_reframed text)"
proof -
  have all: "extractCoreThemes text = collectedThemes text"
    by (rule extractCoreThemes_collected)
  have themes: "extractCoreThemes text = spec_coreTheme text # tl (extractCoreThemes text)"
    by (rule hd_themes)
  have r: "reframed (fst (analyzeAndReframe text st)) =
     templateKeyed (spec_coreTheme text) (join [0x4E0E] (extractCoreThemes text))"
    using reframed_keyed [of "text" "tl (extractCoreThemes text)"] themes
    by (simp add: analyzeAndReframe_def Let_def)
  have h: "hd (extractCoreThemes text) = spec_coreTheme text"
    using themes by (metis list.sel(1))
  have r': "reframed (fst (analyzeAndReframe text st)) =
     templateKeyed (hd (collectedThemes text)) (join [0x4E0E] (collectedThemes text))"
    using r h unfolding all by simp
  have "reframed (fst (analyzeAndReframe text st)) = spec_reframed text"
    if "length (extractCoreThemes text) = 1"
  proof -
    from that themes have "extractCoreThemes text = [spec_coreTheme text]"
      by (metis length_0_conv length_Suc_conv list.inject One_nat_def)
    then show ?thesis using r by (simp add: spec_reframed_def)
  qed
  with all r r' h show ?thesis by blast
qed

text \<open>The theorem at a text with one matching group, and at the text with two: there
  both labels are collected, in the test order, and both are substituted.\<close>

theorem reframed_keyed_by_first_theme_witness:
  "length (extractCoreThemes (ascii ''offer'')) = 1
   \<and> reframed (fst (analyzeAndReframe (ascii ''offer'') initialStore)) =
       spec_reframed (ascii ''offer'')
   \<and> collectedThemes twoThemeText = [[0x804C, 0x4E1A, 0x53D1, 0x5C55], [0x5730, 0x7406, 0x8FC1, 0x79FB]]
   \<and> reframed (fst (analyzeAndReframe twoThemeText initialStore)) =
       [0x5728, 0x5F53, 0x524D, 0x4E2A, 0x4EBA, 0x6761, 0x4EF6, 0xFF08, 0x6280, 0x80FD, 0x3001, 0x7ECF, 0x9A8C, 0x3001, 0x8D44, 0x6E90, 0xFF09, 0x548C, 0x5E02, 0x573A, 0x73AF, 0x5883, 0x4E0B, 0xFF0C, 0x4E0D, 0x540C] @ [0x804C, 0x4E1A, 0x53D1, 0x5C55] @ [0x4E0E] @ [0x5730, 0x7406, 0x8FC1, 0x79FB] @ [0x8DEF, 0x5F84, 0x7684, 0x957F, 0x671F, 0x6536, 0x76CA, 0x4E0E, 0x98CE, 0x9669, 0x7ED3, 0x6784, 0x662F, 0x4EC0, 0x4E48, 0xFF1F]"
proof -
  have one: "length (extractCoreThemes (ascii ''offer'')) = 1"
    by (simp add: reframe_eval)
  have single: "reframed (fst (analyzeAndReframe (ascii ''offer'') initialStore)) =
       spec_reframed (ascii ''offer'')"
    using one reframed_keyed_by_first_theme [of "ascii ''offer''" initialStore] by blast
  have two: "collectedThemes twoThemeText = [[0x804C, 0x4E1A, 0x53D1, 0x5C55], [0x5730, 0x7406, 0x8FC1, 0x79FB]]"
    by (simp add: twoThemeText_def collectedThemes_def topicGroups_def reframe_eval)
  have "reframed (fst (analyzeAndReframe twoThemeText initialStore)) =
       templateKeyed (hd (collectedThemes twoThemeText)) (join [0x4E0E] (collectedThemes twoThemeText))"
    using reframed_keyed_by_first_theme [of twoThemeText initialStore] by blast
  then have "reframed (fst (analyzeAndReframe twoThemeText initialStore)) =
       [0x5728, 0x5F53, 0x524D, 0x4E2A, 0x4EBA, 0x6761, 0x4EF6, 0xFF08, 0x6280, 0x80FD, 0x3001, 0x7ECF, 0x9A8C, 0x3001, 0x8D44, 0x6E90, 0xFF09, 0x548C, 0x5E02, 0x573A, 0x73AF, 0x5883, 0x4E0B, 0xFF0C, 0x4E0D, 0x540C] @ [0x804C, 0x4E1A, 0x53D1, 0x5C55] @ [0x4E0E] @ [0x5730, 0x7406, 0x8FC1, 0x79FB] @ [0x8DEF, 0x5F84, 0x7684, 0x957F, 0x671F, 0x6536, 0x76CA, 0x4E0E, 0x98CE, 0x9669, 0x7ED3, 0x6784, 0x662F, 0x4EC0, 0x4E48, 0xFF1F]"
    unfolding two by (simp add: templateKeyed_def templates_def)
  with one single two show ?thesis by blast
qed


section \<open>Determinism of the pipeline\<close>

text \<open>A global expression is matched from index 0 whatever its \<open>lastIndex\<close> was, so
  the elements found do not depend on the store.\<close>

lemma stringMatch_global:
  "global rx \<Longrightarrow> stringMatch s rx lastIndex1 = stringMatch s rx lastIndex2"
  by (simp add: stringMatch_def)

lemma scanPatterns_store_independent:
  "list_all (\<lambda>p. global (fst p)) ps \<Longrightarrow>
   fst (scanPatterns ps k s st1) = fst (scanPatterns ps k s st2)"
proof (induction ps arbitrary: k st1 st2)
  case Nil
  then show ?case by simp
next
  case (Cons p ps)
  obtain rx ty where p: "p = (rx, ty)" by (cases p)
  have g: "global rx" and rest: "list_all (\<lambda>p. global (fst p)) ps"
    using Cons.prems p by simp_all
  have m: "stringMatch s rx (st1 k) = stringMatch s rx (st2 k)"
    using g by (rule stringMatch_global)
  have "fst (scanPatterns ps (Suc k) s (st1(k := snd (stringMatch s rx (st2 k))))) =
        fst (scanPatterns ps (Suc k) s (st2(k := snd (stringMatch s rx (st2 k)))))"
    using rest by (rule Cons.IH)
  then show ?case
    unfolding p by (simp add: Let_def m split: option.split)
qed

lemma patterns_global:
  "list_all (\<lambda>p. global (fst p)) EMOTIONAL_PATTERNS"
  "list_all (\<lambda>p. global (fst p)) STANCE_PATTERNS"
  by (simp_all add: EMOTIONAL_PATTERNS_def STANCE_PATTERNS_def regex_g_def regex_gi_def)

lemma identifyEmotionalElements_store_independent:
  "fst (identifyEmotionalElements s st1) = fst (identifyEmotionalElements s st2)"
  unfolding identifyEmotionalElements_def Let_def fst_conv
  using scanPatterns_store_independent [OF patterns_global(1), of 0 s st1 st2]
    scanPatterns_store_independent [OF patterns_global(2), of "length EMOTIONAL_PATTERNS" s
      "snd (scanPatterns EMOTIONAL_PATTERNS 0 s st1)"
      "snd (scanPatterns EMOTIONAL_PATTERNS 0 s st2)"]
  by simp

lemma analyzeAndReframe_store_independent:
  "fst (analyzeAndReframe s st1) = fst (analyzeAndReframe s st2)"
  using identifyEmotionalElements_store_independent [of s st1 st2]
  by (simp add: analyzeAndReframe_def Let_def)

text \<open>
  Claim C2. The analysis that \<open>analyzeDecision\<close> returns for a problem text is the same
  for every state in which earlier calls may have left the expression objects; in
  particular a second call with the same text, run in the state the first call left,
  returns the same analysis as the first.
\<close>

theorem analyzeDecision_deterministic:
  "fst (analyzeDecision fl problemText st1) = fst (analyzeDecision fl problemText st2)
   \<and> fst (analyzeDecision fl problemText (snd (analyzeDecision fl problemText st1))) =
       fst (analyzeDecision fl problemText st1)"
proof -
  have "fst (analyzeDecision fl problemText st) = fst (analyzeDecision fl problemText st')"
    for st st'
    using analyzeAndReframe_store_independent [of problemText st st']
    by (simp add: analyzeDecision_def Let_def)
  then show ?thesis by blast
qed


end
